theory Spec2Isabelle
  imports Main
begin

section \<open>Python values, exceptions, strings\<close>

text \<open>
  The script \<^verbatim>\<open>pf-process-statements.py\<close> talks to three outside parties: the file
  system, the XML parser of the standard library and an Odoo server reached over XML-RPC.
  Each of them is an input of the model. Exceptions are values: every function that can
  raise returns a pair of an outcome (\<open>Inl\<close> the exception, \<open>Inr\<close> the returned
  value) and the world it leaves behind, because log lines already written and remote calls
  already made stay made when an exception propagates.

  Only \<^verbatim>\<open>ET.ParseError\<close> is told apart from the other exceptions by the script
  (\<^verbatim>\<open>except ET.ParseError\<close> against \<^verbatim>\<open>except Exception\<close>); every
  constructor below is a subclass of \<^verbatim>\<open>Exception\<close>. Besides \<^verbatim>\<open>ParseError\<close>,
  \<^verbatim>\<open>ET.parse\<close> raises \<^verbatim>\<open>OSError\<close> for a path it cannot open,
  \<^verbatim>\<open>LookupError\<close> for a declared encoding that does not exist and
  \<^verbatim>\<open>ValueError\<close> for a declared multi-byte encoding.
\<close>

datatype exn =
    ParseError string
  | OSError string
  | RpcFault string
  | LookupError string
  | ValueError string
  | OtherError string

fun is_ParseError :: "exn \<Rightarrow> bool" where
  "is_ParseError (ParseError m) = True"
| "is_ParseError (OSError m) = False"
| "is_ParseError (RpcFault m) = False"
| "is_ParseError (LookupError m) = False"
| "is_ParseError (ValueError m) = False"
| "is_ParseError (OtherError m) = False"

text \<open>The values that travel over XML-RPC, and Python's truth test on them.\<close>

datatype pyval =
    VNone
  | VBool bool
  | VInt int
  | VStr string
  | VList "pyval list"
  | VDict "(string \<times> pyval) list"

fun truthy :: "pyval \<Rightarrow> bool" where
  "truthy VNone = False"
| "truthy (VBool b) = b"
| "truthy (VInt i) = (i \<noteq> 0)"
| "truthy (VStr s) = (s \<noteq> [])"
| "truthy (VList xs) = (xs \<noteq> [])"
| "truthy (VDict kvs) = (kvs \<noteq> [])"

text \<open>
  A string is a list of characters with code points below 256. \<open>lower\<close>,
  \<open>strip\<close>, \<open>startswith\<close> and \<open>endswith\<close> are \<^verbatim>\<open>str.lower\<close>,
  \<^verbatim>\<open>str.strip\<close>, \<^verbatim>\<open>str.startswith\<close> and \<^verbatim>\<open>str.endswith\<close> on that range.
\<close>

definition lower_char :: "char \<Rightarrow> char" where
  "lower_char c =
     (let n = (of_char c :: nat)
      in if (65 \<le> n \<and> n \<le> 90) \<or> (192 \<le> n \<and> n \<le> 222 \<and> n \<noteq> 215)
         then char_of (n + 32) else c)"

definition lower :: "string \<Rightarrow> string" where
  "lower s = map lower_char s"

definition startswith :: "string \<Rightarrow> string \<Rightarrow> bool" where
  "startswith s p = (take (length p) s = p)"

definition endswith :: "string \<Rightarrow> string \<Rightarrow> bool" where
  "endswith s p = (length p \<le> length s \<and> drop (length s - length p) s = p)"

definition is_space :: "char \<Rightarrow> bool" where
  "is_space c =
     (let n = (of_char c :: nat)
      in (9 \<le> n \<and> n \<le> 13) \<or> (28 \<le> n \<and> n \<le> 32) \<or> n = 133 \<or> n = 160)"

definition strip :: "string \<Rightarrow> string" where
  "strip s = rev (dropWhile is_space (rev (dropWhile is_space s)))"

text \<open>\<^verbatim>\<open>os.path.join\<close> of a directory and one name (POSIX).\<close>

definition path_join :: "string \<Rightarrow> string \<Rightarrow> string" where
  "path_join a b =
     (if startswith b ''/'' then b
      else if a = [] \<or> endswith a ''/'' then a @ b
      else a @ ''/'' @ b)"

text \<open>\<^verbatim>\<open>base64.b64encode\<close> (RFC 4648, standard alphabet, padded) on a byte string.\<close>

definition b64_alphabet :: string where
  "b64_alphabet = ''ABCDEFGHIJKLMNOPQRSTUVWXYZabcdefghijklmnopqrstuvwxyz0123456789+/''"

definition b64_char :: "nat \<Rightarrow> char" where
  "b64_char n = b64_alphabet ! (n mod 64)"

fun b64_groups :: "nat list \<Rightarrow> string" where
  "b64_groups [] = []"
| "b64_groups [a] =
     [b64_char (a div 4), b64_char ((a mod 4) * 16), CHR ''='', CHR ''='']"
| "b64_groups [a, b] =
     [b64_char (a div 4), b64_char ((a mod 4) * 16 + b div 16),
      b64_char ((b mod 16) * 4), CHR ''='']"
| "b64_groups (a # b # c # rest) =
     [b64_char (a div 4), b64_char ((a mod 4) * 16 + b div 16),
      b64_char ((b mod 16) * 4 + c div 64), b64_char (c mod 64)] @ b64_groups rest"

definition b64encode :: "string \<Rightarrow> string" where
  "b64encode bs = b64_groups (map of_char bs)"

section \<open>XML documents\<close>

text \<open>
  An \<^verbatim>\<open>xml.etree.ElementTree.Element\<close>: its tag in Clark notation
  (\<^verbatim>\<open>{namespace}local\<close>), its text (\<^verbatim>\<open>None\<close> when the element has none) and
  its children in document order. Attributes and tails are never read by the script.
\<close>

datatype element = Element (tag: string) (text_of: "string option") (children: "element list")

text \<open>\<^verbatim>\<open>Element.iter()\<close>: the element, then its descendants, in document order.\<close>

fun iter :: "element \<Rightarrow> element list" where
  "iter (Element t x cs) = Element t x cs # concat (map iter cs)"

definition camt_ns :: string where
  "camt_ns = ''urn:iso:std:iso:20022:tech:xsd:camt.053.001.04''"

definition qname :: "string \<Rightarrow> string" where
  "qname l = ''{'' @ camt_ns @ ''}'' @ l"

text \<open>
  \<^verbatim>\<open>root.findall(".//ns:T", ns)\<close>: every descendant of the root with tag \<open>T\<close> of
  the namespace, in document order. The root itself is not a candidate.
\<close>

definition findall_desc :: "string \<Rightarrow> element \<Rightarrow> element list" where
  "findall_desc l root = filter (\<lambda>e. tag e = qname l) (concat (map iter (children root)))"

text \<open>
  \<^verbatim>\<open>root.find(".//ns:Stmt/ns:Id", namespaces=ns)\<close>: the first \<open>Id\<close> child of a
  descendant \<open>Stmt\<close>, or \<^verbatim>\<open>None\<close>.
\<close>

definition find_stmt_id :: "element \<Rightarrow> element option" where
  "find_stmt_id root =
     (case concat (map (\<lambda>s. filter (\<lambda>e. tag e = qname ''Id'') (children s))
                       (findall_desc ''Stmt'' root)) of
        [] \<Rightarrow> None
      | e # _ \<Rightarrow> Some e)"

section \<open>The world: file system, log, remote server\<close>

text \<open>
  The file system answers four questions, each of which can raise:
  \<^item> \<open>listdir d\<close>: \<^verbatim>\<open>os.listdir(d)\<close>;
  \<^item> \<open>parse_path p\<close>: \<^verbatim>\<open>ET.parse(p).getroot()\<close>, the parser opening the file itself;
  \<^item> \<open>parse_utf8 p\<close>: \<^verbatim>\<open>open(p, "r", encoding="utf-8")\<close> followed by
    \<^verbatim>\<open>ET.parse(file).getroot()\<close>;
  \<^item> \<open>read_bytes p\<close>: \<^verbatim>\<open>open(p, "rb")\<close> followed by \<^verbatim>\<open>file.read()\<close>.
\<close>

record filesystem =
  listdir :: "string \<Rightarrow> exn + string list"
  parse_path :: "string \<Rightarrow> exn + element"
  parse_utf8 :: "string \<Rightarrow> exn + element"
  read_bytes :: "string \<Rightarrow> exn + string"

datatype level = DEBUG | INFO | WARNING | ERROR

fun levelno :: "level \<Rightarrow> nat" where
  "levelno DEBUG = 10"
| "levelno INFO = 20"
| "levelno WARNING = 30"
| "levelno ERROR = 40"

text \<open>
  A message is an f-string: literal pieces \<open>S\<close>, interpolated values \<open>V\<close> and
  interpolated exceptions \<open>E\<close>.
\<close>

datatype frag = S string | V pyval | E exn

datatype event = Log level "frag list" | Print "frag list"

text \<open>
  The two XML-RPC methods the script calls, with the endpoint URL of the proxy:
  \<^verbatim>\<open>common.authenticate(db, username, password, {})\<close> and
  \<^verbatim>\<open>models.execute_kw(db, uid, password, model, method, args)\<close>.
\<close>

datatype rpc_call =
    Authenticate string string string string pyval
  | ExecuteKw string string pyval string string string pyval

text \<open>
  The server is a state machine over its own state \<open>'r\<close>: a call returns a value or
  raises, and leaves a new state. Building a \<^verbatim>\<open>ServerProxy\<close> sends nothing; it raises
  only for a URL whose scheme is not http or https, which the first call through that
  proxy stands for here.
\<close>

type_synonym 'r server = "'r \<Rightarrow> rpc_call \<Rightarrow> (exn + pyval) \<times> 'r"

record 'r world =
  log_level :: level
  out :: "event list"
  trace :: "(rpc_call \<times> (exn + pyval)) list"
  remote :: 'r

definition logmsg :: "level \<Rightarrow> frag list \<Rightarrow> 'r world \<Rightarrow> 'r world" where
  "logmsg lvl m w =
     (if levelno (log_level w) \<le> levelno lvl then w\<lparr>out := out w @ [Log lvl m]\<rparr> else w)"

text \<open>\<^verbatim>\<open>logging.exception(msg)\<close>: level ERROR, with the exception appended.\<close>

definition log_exception :: "frag list \<Rightarrow> exn \<Rightarrow> 'r world \<Rightarrow> 'r world" where
  "log_exception m e w = logmsg ERROR (m @ [E e]) w"

definition print :: "frag list \<Rightarrow> 'r world \<Rightarrow> 'r world" where
  "print m w = w\<lparr>out := out w @ [Print m]\<rparr>"

definition rpc :: "'r server \<Rightarrow> rpc_call \<Rightarrow> 'r world \<Rightarrow> (exn + pyval) \<times> 'r world" where
  "rpc srv c w =
     (case srv (remote w) c of
        (reply, r') \<Rightarrow> (reply, w\<lparr>trace := trace w @ [(c, reply)], remote := r'\<rparr>))"

text \<open>
  The four calls of the script, as it builds them:
  \<^verbatim>\<open>common.authenticate(db, username, password, {})\<close> on
  \<^verbatim>\<open>f"{url}/xmlrpc/2/common"\<close>, and on \<^verbatim>\<open>f"{odoo_url}/xmlrpc/2/object"\<close>
  the \<^verbatim>\<open>search\<close> whose argument list holds the one-condition domain
  \<^verbatim>\<open>["name", "=", stmt_id]\<close>, the \<^verbatim>\<open>create\<close> whose argument list holds the
  dictionary \<^verbatim>\<open>{"statement_filename": file_name, "statement_file": encoded_file}\<close>, and
  the \<^verbatim>\<open>import_file_button\<close> whose argument list holds the one-element list of
  \<^verbatim>\<open>statement_id\<close>.
\<close>

definition authenticate_call :: "string \<Rightarrow> string \<Rightarrow> string \<Rightarrow> string \<Rightarrow> rpc_call" where
  "authenticate_call url db username password =
     Authenticate (url @ ''/xmlrpc/2/common'') db username password (VDict [])"

definition search_call :: "string \<Rightarrow> string \<Rightarrow> pyval \<Rightarrow> string \<Rightarrow> string \<Rightarrow> rpc_call" where
  "search_call odoo_url db uid password stmt_id =
     ExecuteKw (odoo_url @ ''/xmlrpc/2/object'') db uid password ''account.bank.statement'' ''search''
       (VList [VList [VList [VStr ''name'', VStr ''='', VStr stmt_id]]])"

definition create_call :: "string \<Rightarrow> string \<Rightarrow> pyval \<Rightarrow> string \<Rightarrow> string \<Rightarrow> string \<Rightarrow> rpc_call" where
  "create_call odoo_url db uid password file_name encoded_file =
     ExecuteKw (odoo_url @ ''/xmlrpc/2/object'') db uid password ''account.statement.import'' ''create''
       (VList [VDict [(''statement_filename'', VStr file_name),
                      (''statement_file'', VStr encoded_file)]])"

definition import_call :: "string \<Rightarrow> string \<Rightarrow> pyval \<Rightarrow> string \<Rightarrow> pyval \<Rightarrow> rpc_call" where
  "import_call odoo_url db uid password statement_id =
     ExecuteKw (odoo_url @ ''/xmlrpc/2/object'') db uid password ''account.statement.import''
       ''import_file_button'' (VList [VList [statement_id]])"

text \<open>A \<^verbatim>\<open>for\<close> loop whose body may raise; \<^verbatim>\<open>continue\<close> is the body returning.\<close>

fun for_each :: "('a \<Rightarrow> 'w \<Rightarrow> (exn + unit) \<times> 'w) \<Rightarrow> 'a list \<Rightarrow> 'w \<Rightarrow> (exn + unit) \<times> 'w" where
  "for_each body [] w = (Inr (), w)"
| "for_each body (x # xs) w =
     (case body x w of
        (Inl e, w') \<Rightarrow> (Inl e, w')
      | (Inr u, w') \<Rightarrow> for_each body xs w')"

section \<open>The script\<close>

definition setup_logging :: "bool \<Rightarrow> 'r world \<Rightarrow> 'r world" where
  "setup_logging debug_mode w =
     logmsg DEBUG [S ''Logging setup complete. Debug mode is active.'']
       (w\<lparr>log_level := (if debug_mode then DEBUG else INFO)\<rparr>)"

definition validate_odoo_connection ::
  "'r server \<Rightarrow> string \<Rightarrow> string \<Rightarrow> string \<Rightarrow> string \<Rightarrow> 'r world \<Rightarrow> pyval \<times> 'r world" where
  "validate_odoo_connection srv url db username password w =
     (let w1 = logmsg DEBUG [S ''Validating connection to Odoo: '', S url, S '', DB: '', S db,
                             S '', User: '', S username] w
      in case rpc srv (authenticate_call url db username password) w1 of
           (Inr uid, w2) \<Rightarrow>
             if truthy uid
             then (uid, print [S ''Connection successful: User ID '', V uid]
                          (logmsg DEBUG [S ''Connection successful. User ID: '', V uid] w2))
             else (VNone, print [S ''Authentication failed.'']
                            (logmsg ERROR [S ''Authentication failed.''] w2))
         | (Inl e, w2) \<Rightarrow> (VNone, log_exception [S ''Error connecting to Odoo:''] e w2))"

definition is_blank_camt053 :: "filesystem \<Rightarrow> string \<Rightarrow> 'r world \<Rightarrow> (exn + bool) \<times> 'r world" where
  "is_blank_camt053 fs file_path w =
     (let w1 = logmsg DEBUG [S ''Checking file for blank status: '', S file_path] w
      in case parse_path fs file_path of
           Inr root \<Rightarrow>
             (let entries = findall_desc ''Ntry'' root
              in if entries = []
                 then (Inr True, logmsg DEBUG [S ''File is blank: '', S file_path] w1)
                 else (Inr False, logmsg DEBUG [S ''File has transactions: '', S file_path] w1))
         | Inl e \<Rightarrow>
             if is_ParseError e
             then (Inr False,
                   logmsg ERROR [S ''Error parsing XML file '', S file_path, S '': '', E e] w1)
             else (Inl e, w1))"

definition blanks_body :: "filesystem \<Rightarrow> string \<Rightarrow> string \<Rightarrow> 'r world \<Rightarrow> (exn + unit) \<times> 'r world" where
  "blanks_body fs directory file_name w =
     (let file_path = path_join directory file_name;
          w1 = logmsg DEBUG [S ''Inspecting file: '', S file_name] w
      in if \<not> startswith (lower file_name) ''camt.053'' \<or> \<not> endswith file_name ''.xml''
         then (Inr (), logmsg DEBUG [S ''Skipping non-CAMT.053 file: '', S file_name] w1)
         else case is_blank_camt053 fs file_path w1 of
                (Inl e, w2) \<Rightarrow> (Inl e, w2)
              | (Inr b, w2) \<Rightarrow>
                  if b
                  then (Inr (), logmsg INFO [S ''Blank file: '', S file_name]
                                  (print [S ''Blank file detected: '', S file_name] w2))
                  else (Inr (), w2))"

definition process_directory_for_blanks ::
  "filesystem \<Rightarrow> string \<Rightarrow> 'r world \<Rightarrow> (exn + unit) \<times> 'r world" where
  "process_directory_for_blanks fs directory w =
     (let w1 = logmsg DEBUG [S ''Processing directory for blank files: '', S directory] w
      in case listdir fs directory of
           Inl e \<Rightarrow> (Inl e, w1)
         | Inr names \<Rightarrow> for_each (blanks_body fs directory) names w1)"

text \<open>
  The body of the loop of \<^verbatim>\<open>process_directory\<close>, in its four stages: the blankness
  check (not inside any \<^verbatim>\<open>try\<close>), the extraction of the statement identifier, the
  existence check and the upload.
\<close>

definition upload_stage ::
  "filesystem \<Rightarrow> 'r server \<Rightarrow> string \<Rightarrow> string \<Rightarrow> pyval \<Rightarrow> string \<Rightarrow> string \<Rightarrow> string \<Rightarrow>
   'r world \<Rightarrow> (exn + unit) \<times> 'r world" where
  "upload_stage fs srv odoo_url db uid password file_name file_path w =
     (case read_bytes fs file_path of
        Inl e \<Rightarrow> (Inr (), logmsg ERROR [S ''Error uploading file '', S file_name, S '' to Odoo: '', E e] w)
      | Inr file_data \<Rightarrow>
          (let encoded_file = b64encode file_data
           in case rpc srv (create_call odoo_url db uid password file_name encoded_file) w of
                (Inl e, w1) \<Rightarrow>
                  (Inr (), logmsg ERROR [S ''Error uploading file '', S file_name, S '' to Odoo: '', E e] w1)
              | (Inr statement_id, w1) \<Rightarrow>
                  (case rpc srv (import_call odoo_url db uid password statement_id) w1 of
                     (Inl e, w2) \<Rightarrow>
                       (Inr (), logmsg ERROR [S ''Error uploading file '', S file_name,
                                              S '' to Odoo: '', E e] w2)
                   | (Inr r, w2) \<Rightarrow>
                       (Inr (), logmsg INFO [S ''Successfully uploaded file: '', S file_name,
                                             S '' to Odoo.''] w2))))"

definition exists_stage ::
  "filesystem \<Rightarrow> 'r server \<Rightarrow> string \<Rightarrow> string \<Rightarrow> pyval \<Rightarrow> string \<Rightarrow> bool \<Rightarrow> string \<Rightarrow> string \<Rightarrow>
   string \<Rightarrow> 'r world \<Rightarrow> (exn + unit) \<times> 'r world" where
  "exists_stage fs srv odoo_url db uid password debug file_name file_path stmt_id w =
     (let w1 = (if debug
                then logmsg DEBUG [S ''Extracted statement ID: '', S stmt_id, S '' from file: '',
                                   S file_name] w
                else w)
      in case rpc srv (search_call odoo_url db uid password stmt_id) w1 of
           (Inl e, w2) \<Rightarrow>
             (Inr (), logmsg ERROR [S ''Error checking statement existence in Odoo for '', S stmt_id,
                                    S '': '', E e] w2)
         | (Inr existing_statement, w2) \<Rightarrow>
             if truthy existing_statement
             then (Inr (), logmsg INFO [S ''Statement with ID '', S stmt_id,
                                        S '' already exists in Odoo. Skipping file: '', S file_name] w2)
             else upload_stage fs srv odoo_url db uid password file_name file_path w2)"

text \<open>
  The extraction of the statement identifier: \<open>Inl w'\<close> when the file is skipped
  (\<^verbatim>\<open>continue\<close>), \<open>Inr stmt_id\<close> when the identifier is extracted. The test is
  \<^verbatim>\<open>stmt_id_node is None or not stmt_id_node.text\<close>; the text is stripped after it.
\<close>

definition extract_stmt_id :: "filesystem \<Rightarrow> string \<Rightarrow> string \<Rightarrow> 'r world \<Rightarrow> 'r world + string" where
  "extract_stmt_id fs file_name file_path w =
     (case parse_utf8 fs file_path of
        Inl e \<Rightarrow>
          Inl (logmsg ERROR [S ''Error extracting statement ID from file '', S file_name, S '': '', E e] w)
      | Inr root \<Rightarrow>
          (case find_stmt_id root of
             None \<Rightarrow>
               Inl (logmsg ERROR [S ''Could not extract statement ID from file: '', S file_name] w)
           | Some stmt_id_node \<Rightarrow>
               (case text_of stmt_id_node of
                  None \<Rightarrow>
                    Inl (logmsg ERROR [S ''Could not extract statement ID from file: '', S file_name] w)
                | Some t \<Rightarrow>
                    if t = []
                    then Inl (logmsg ERROR [S ''Could not extract statement ID from file: '',
                                            S file_name] w)
                    else Inr (strip t))))"

definition process_body ::
  "filesystem \<Rightarrow> 'r server \<Rightarrow> string \<Rightarrow> string \<Rightarrow> pyval \<Rightarrow> string \<Rightarrow> bool \<Rightarrow> string \<Rightarrow> string \<Rightarrow>
   'r world \<Rightarrow> (exn + unit) \<times> 'r world" where
  "process_body fs srv odoo_url db uid password debug directory file_name w =
     (let file_path = path_join directory file_name
      in if \<not> endswith file_name ''.xml''
         then (Inr (), if debug then logmsg DEBUG [S ''Skipping non-XML file: '', S file_name] w else w)
         else
           (let w1 = (if debug then logmsg DEBUG [S ''Inspecting file: '', S file_name] w else w)
            in case is_blank_camt053 fs file_path w1 of
                 (Inl e, w2) \<Rightarrow> (Inl e, w2)
               | (Inr b, w2) \<Rightarrow>
                   if b
                   then (Inr (), logmsg INFO [S ''Skipping blank file: '', S file_name] w2)
                   else (case extract_stmt_id fs file_name file_path w2 of
                           Inl w3 \<Rightarrow> (Inr (), w3)
                         | Inr stmt_id \<Rightarrow>
                             exists_stage fs srv odoo_url db uid password debug file_name
                               file_path stmt_id w2)))"

definition process_directory ::
  "filesystem \<Rightarrow> 'r server \<Rightarrow> string \<Rightarrow> string \<Rightarrow> string \<Rightarrow> string \<Rightarrow> string \<Rightarrow> bool \<Rightarrow>
   'r world \<Rightarrow> (exn + unit) \<times> 'r world" where
  "process_directory fs srv directory odoo_url db username password debug w =
     (let w1 = (if debug then logmsg DEBUG [S ''Processing directory: '', S directory] w else w)
      in case rpc srv (authenticate_call odoo_url db username password) w1 of
           (Inl e, w2) \<Rightarrow> (Inl e, w2)
         | (Inr uid, w2) \<Rightarrow>
             (case listdir fs directory of
                Inl e \<Rightarrow> (Inl e, w2)
              | Inr names \<Rightarrow>
                  for_each (process_body fs srv odoo_url db uid password debug directory) names w2))"

text \<open>The parsed command line.\<close>

record args =
  directory :: string
  odoo_url :: string
  db :: string
  username :: string
  password :: string
  test_connection :: bool
  blank :: bool
  debug :: bool

definition main :: "filesystem \<Rightarrow> 'r server \<Rightarrow> args \<Rightarrow> 'r world \<Rightarrow> (exn + unit) \<times> 'r world" where
  "main fs srv a w0 =
     (let w = setup_logging (debug a) w0
      in if blank a
         then process_directory_for_blanks fs (directory a)
                (logmsg DEBUG [S ''--blank flag detected. Skipping database connection.''] w)
         else case validate_odoo_connection srv (odoo_url a) (db a) (username a) (password a) w of
                (connection_valid, w1) \<Rightarrow>
                  if \<not> truthy connection_valid
                  then (Inr (), print [S ''Failed to connect to Odoo. Exiting.''] w1)
                  else process_directory fs srv (directory a) (odoo_url a) (db a) (username a)
                         (password a) (debug a) w1)"

section \<open>The specification's vocabulary\<close>

text \<open>
  The transaction-entry nodes of a document, as the specification counts them: every
  element of the document, the root included, whose tag is \<open>Ntry\<close> of the namespace.
\<close>

definition entry_nodes :: "element \<Rightarrow> element list" where
  "entry_nodes root = filter (\<lambda>e. tag e = qname ''Ntry'') (iter root)"

text \<open>An ERROR line of the log.\<close>

fun is_error_log :: "event \<Rightarrow> bool" where
  "is_error_log (Log lvl m) = (lvl = ERROR)"
| "is_error_log (Print m) = False"

text \<open>
  For the import loop. An entry is readable when the blankness check can end for it: its
  name does not end in \<^verbatim>\<open>.xml\<close>, or \<^verbatim>\<open>ET.parse\<close> of its path returns or raises
  \<^verbatim>\<open>ParseError\<close>. Between two worlds, every fault is logged when the remote calls
  added that raised are at most as many as the ERROR lines added.
\<close>

definition readable :: "filesystem \<Rightarrow> string \<Rightarrow> string \<Rightarrow> bool" where
  "readable fs d file_name =
     (case parse_path fs (path_join d file_name) of
        Inl e \<Rightarrow> is_ParseError e \<or> \<not> endswith file_name ''.xml''
      | Inr root \<Rightarrow> True)"

fun raised :: "rpc_call \<times> (exn + pyval) \<Rightarrow> bool" where
  "raised (c, reply) = isl reply"

definition logs_every_fault :: "'r world \<Rightarrow> 'r world \<Rightarrow> bool" where
  "logs_every_fault w w' =
     (\<exists>calls lines. trace w' = trace w @ calls \<and> out w' = out w @ lines
        \<and> length (filter raised calls) \<le> length (filter is_error_log lines))"

text \<open>
  What a stretch of the run sends: the calls added to the trace all satisfy \<open>P\<close>, and the
  server is in the state that replaying them from the old state gives. A call creates an
  import record for a file when it is a \<^verbatim>\<open>create\<close> on \<^verbatim>\<open>account.statement.import\<close>
  whose values give that file name.
\<close>

definition replay :: "'r server \<Rightarrow> 'r \<Rightarrow> (rpc_call \<times> (exn + pyval)) list \<Rightarrow> 'r" where
  "replay srv r calls = foldl (\<lambda>r c. snd (srv r (fst c))) r calls"

definition sends :: "'r server \<Rightarrow> (rpc_call \<times> (exn + pyval) \<Rightarrow> bool) \<Rightarrow> 'r world \<Rightarrow> 'r world \<Rightarrow> bool" where
  "sends srv P w w' =
     (\<exists>new. trace w' = trace w @ new \<and> list_all P new \<and> remote w' = replay srv (remote w) new)"

definition is_create_for :: "string \<Rightarrow> rpc_call \<Rightarrow> bool" where
  "is_create_for file_name c =
     (case c of
        Authenticate url d u p ctx \<Rightarrow> False
      | ExecuteKw url d uid p model method a \<Rightarrow>
          model = ''account.statement.import'' \<and> method = ''create''
          \<and> (case a of
                VList [VDict values] \<Rightarrow> map_of values ''statement_filename'' = Some (VStr file_name)
              | _ \<Rightarrow> False))"

text \<open>
  The two ways the body of the blank-detection loop treats a name: skipped by the filter
  with two debug lines, or handed to the blankness check and reported when blank.
\<close>

definition skipped_by_filter :: "string \<Rightarrow> 'r world \<Rightarrow> (exn + unit) \<times> 'r world" where
  "skipped_by_filter file_name w =
     (Inr (), logmsg DEBUG [S ''Skipping non-CAMT.053 file: '', S file_name]
                (logmsg DEBUG [S ''Inspecting file: '', S file_name] w))"

definition classified :: "filesystem \<Rightarrow> string \<Rightarrow> string \<Rightarrow> 'r world \<Rightarrow> (exn + unit) \<times> 'r world" where
  "classified fs d file_name w =
     (case is_blank_camt053 fs (path_join d file_name)
             (logmsg DEBUG [S ''Inspecting file: '', S file_name] w) of
        (Inl e, w2) \<Rightarrow> (Inl e, w2)
      | (Inr b, w2) \<Rightarrow>
          if b
          then (Inr (), logmsg INFO [S ''Blank file: '', S file_name]
                          (print [S ''Blank file detected: '', S file_name] w2))
          else (Inr (), w2))"

text \<open>
  The login call a command line leads to, the world right after the pre-flight call, the
  world in which a validated run enters \<^verbatim>\<open>process_directory\<close>, and the world after
  that function's first, optional debug line.
\<close>

definition args_call :: "args \<Rightarrow> rpc_call" where
  "args_call a = authenticate_call (odoo_url a) (db a) (username a) (password a)"

definition after_validation_call :: "args \<Rightarrow> (exn + pyval) \<Rightarrow> 'r \<Rightarrow> 'r world \<Rightarrow> 'r world" where
  "after_validation_call a reply r' w0 =
     (let w1 = logmsg DEBUG [S ''Validating connection to Odoo: '', S (odoo_url a), S '', DB: '',
                             S (db a), S '', User: '', S (username a)]
                 (setup_logging (debug a) w0)
      in w1\<lparr>trace := trace w1 @ [(args_call a, reply)], remote := r'\<rparr>)"

definition validated :: "args \<Rightarrow> pyval \<Rightarrow> 'r \<Rightarrow> 'r world \<Rightarrow> 'r world" where
  "validated a uid r' w0 =
     print [S ''Connection successful: User ID '', V uid]
       (logmsg DEBUG [S ''Connection successful. User ID: '', V uid]
          (after_validation_call a (Inr uid) r' w0))"

definition entering :: "args \<Rightarrow> 'r world \<Rightarrow> 'r world" where
  "entering a w = (if debug a then logmsg DEBUG [S ''Processing directory: '', S (directory a)] w else w)"

text \<open>Whether a remote call carries a given user identifier; a login carries none.\<close>

fun uses_uid :: "pyval \<Rightarrow> rpc_call \<times> (exn + pyval) \<Rightarrow> bool" where
  "uses_uid uid (Authenticate url d u p ctx, reply) = True"
| "uses_uid uid (ExecuteKw url d u p model method a, reply) = (u = uid)"

text \<open>
  A file has statement \<open>stmt_id\<close> when the import loop takes it past the blankness check
  and extracts that identifier from it: its name ends in \<^verbatim>\<open>.xml\<close>, the blankness
  check answers \<^verbatim>\<open>False\<close>, and the \<open>Id\<close> node has text that is not empty and
  strips to \<open>stmt_id\<close>. \<open>after_blank_check\<close> and \<open>before_search\<close> are the worlds
  with the log lines written up to the blankness check and up to the existence check.
\<close>

definition has_statement :: "filesystem \<Rightarrow> string \<Rightarrow> string \<Rightarrow> string \<Rightarrow> bool" where
  "has_statement fs d file_name stmt_id =
     (endswith file_name ''.xml''
      \<and> (case parse_path fs (path_join d file_name) of
            Inr root \<Rightarrow> findall_desc ''Ntry'' root \<noteq> []
          | Inl e \<Rightarrow> is_ParseError e)
      \<and> (case parse_utf8 fs (path_join d file_name) of
            Inr root \<Rightarrow>
              (case find_stmt_id root of
                 Some node \<Rightarrow>
                   (case text_of node of Some t \<Rightarrow> t \<noteq> [] \<and> stmt_id = strip t | None \<Rightarrow> False)
               | None \<Rightarrow> False)
          | Inl e \<Rightarrow> False))"

definition after_blank_check :: "filesystem \<Rightarrow> bool \<Rightarrow> string \<Rightarrow> string \<Rightarrow> 'r world \<Rightarrow> 'r world" where
  "after_blank_check fs dbg d file_name w =
     snd (is_blank_camt053 fs (path_join d file_name)
            (if dbg then logmsg DEBUG [S ''Inspecting file: '', S file_name] w else w))"

definition before_search :: "filesystem \<Rightarrow> bool \<Rightarrow> string \<Rightarrow> string \<Rightarrow> string \<Rightarrow> 'r world \<Rightarrow> 'r world" where
  "before_search fs dbg d file_name stmt_id w =
     (if dbg
      then logmsg DEBUG [S ''Extracted statement ID: '', S stmt_id, S '' from file: '', S file_name]
             (after_blank_check fs dbg d file_name w)
      else after_blank_check fs dbg d file_name w)"

section \<open>Sample inputs\<close>

text \<open>
  Three directories. \<open>stmts\<close> holds a blank statement and a statement with one
  entry; \<open>inbox\<close> holds a file that is not well-formed, a statement whose identifier
  is blank space, a blank statement whose name ends in upper-case \<open>.XML\<close>, a statement
  with one entry and a text file; \<open>mixed\<close> holds a file that is not well-formed and
  declares the encoding \<open>bogus\<close>, for which \<^verbatim>\<open>ET.parse\<close> raises
  \<^verbatim>\<open>LookupError\<close>, and a statement with one entry. Any other directory cannot be
  listed.
\<close>

definition stmt_doc :: "element list \<Rightarrow> element" where
  "stmt_doc stmt_children =
     Element (qname ''Document'') None
       [Element (qname ''BkToCstmrStmt'') None [Element (qname ''Stmt'') None stmt_children]]"

definition doc_A :: element where
  "doc_A = stmt_doc [Element (qname ''Id'') (Some ''STMT-000'') []]"

definition doc_B :: element where
  "doc_B = stmt_doc [Element (qname ''Id'') (Some ''STMT-001'') [], Element (qname ''Ntry'') None []]"

definition doc_W :: element where
  "doc_W = stmt_doc [Element (qname ''Id'') (Some ''   '') [], Element (qname ''Ntry'') None []]"

definition doc_C :: element where
  "doc_C = stmt_doc [Element (qname ''Id'') (Some '' STMT-002 '') [], Element (qname ''Ntry'') None []]"

definition bytes_A :: string where
  \<open>bytes_A = ''<Document xmlns="urn:iso:std:iso:20022:tech:xsd:camt.053.001.04"><BkToCstmrStmt><Stmt><Id>STMT-000</Id></Stmt></BkToCstmrStmt></Document>''\<close>

definition bytes_B :: string where
  \<open>bytes_B = ''<Document xmlns="urn:iso:std:iso:20022:tech:xsd:camt.053.001.04"><BkToCstmrStmt><Stmt><Id>STMT-001</Id><Ntry/></Stmt></BkToCstmrStmt></Document>''\<close>

definition bytes_W :: string where
  \<open>bytes_W = ''<Document xmlns="urn:iso:std:iso:20022:tech:xsd:camt.053.001.04"><BkToCstmrStmt><Stmt><Id>   </Id><Ntry/></Stmt></BkToCstmrStmt></Document>''\<close>

definition bytes_C :: string where
  \<open>bytes_C = ''<Document xmlns="urn:iso:std:iso:20022:tech:xsd:camt.053.001.04"><BkToCstmrStmt><Stmt><Id> STMT-002 </Id><Ntry/></Stmt></BkToCstmrStmt></Document>''\<close>

definition bytes_enc :: string where
  \<open>bytes_enc = ''<?xml version="1.0" encoding="bogus"?><Document>''\<close>

definition sample_files :: "(string \<times> (exn + element) \<times> string) list" where
  "sample_files =
     [(''stmts/camt.053_A.xml'', Inr doc_A, bytes_A),
      (''stmts/camt.053_B.xml'', Inr doc_B, bytes_B),
      (''inbox/bad.xml'', Inl (ParseError ''no element found: line 1, column 10''), ''<Document>''),
      (''inbox/ws.xml'', Inr doc_W, bytes_W),
      (''inbox/CAMT.053_2025.XML'', Inr doc_A, bytes_A),
      (''inbox/camt.053_C.xml'', Inr doc_C, bytes_C),
      (''inbox/notes.txt'', Inl (ParseError ''syntax error: line 1, column 0''), ''todo''),
      (''mixed/enc.xml'', Inl (LookupError ''unknown encoding: bogus''), bytes_enc),
      (''mixed/camt.053_B.xml'', Inr doc_B, bytes_B)]"

definition sample_parse :: "string \<Rightarrow> exn + element" where
  "sample_parse p =
     (case map_of sample_files p of
        None \<Rightarrow> Inl (OSError ''No such file or directory'')
      | Some (x, bs) \<Rightarrow> x)"

definition sample_fs :: filesystem where
  "sample_fs =
     \<lparr>listdir = (\<lambda>d. if d = ''stmts'' then Inr [''camt.053_A.xml'', ''camt.053_B.xml'']
                     else if d = ''inbox''
                     then Inr [''bad.xml'', ''ws.xml'', ''CAMT.053_2025.XML'', ''camt.053_C.xml'',
                               ''notes.txt'']
                     else if d = ''mixed'' then Inr [''enc.xml'', ''camt.053_B.xml'']
                     else Inl (OSError ''No such file or directory'')),
      parse_path = sample_parse,
      parse_utf8 = sample_parse,
      read_bytes = (\<lambda>p. case map_of sample_files p of
                            None \<Rightarrow> Inl (OSError ''No such file or directory'')
                          | Some (x, bs) \<Rightarrow> Inr bs)\<rparr>"

text \<open>
  A small Odoo: the bank statements by identifier and name, the staged import records
  (file name and encoded content) and the number of logins so far. \<open>auth k\<close> is the
  reply to login number \<open>k\<close>; \<open>importer f\<close> is the name of the statement that the
  import of a staged file named \<open>f\<close> creates, or \<open>None\<close> when the import fails.
\<close>

record odoo =
  statements :: "(int \<times> string) list"
  staged :: "(string \<times> string) list"
  logins :: nat

definition odoo_search :: "odoo \<Rightarrow> pyval \<Rightarrow> (exn + pyval) \<times> odoo" where
  "odoo_search r a =
     (case a of
        VList [VList [VList [VStr f, VStr op, VStr s]]] \<Rightarrow>
          (Inr (VList (map (\<lambda>st. VInt (fst st)) (filter (\<lambda>st. snd st = s) (statements r)))), r)
      | _ \<Rightarrow> (Inl (RpcFault ''invalid domain''), r))"

definition odoo_create :: "odoo \<Rightarrow> pyval \<Rightarrow> (exn + pyval) \<times> odoo" where
  "odoo_create r a =
     (case a of
        VList [VDict [(k1, VStr file_name), (k2, VStr content)]] \<Rightarrow>
          (Inr (VInt (int (Suc (length (staged r))))), r\<lparr>staged := staged r @ [(file_name, content)]\<rparr>)
      | _ \<Rightarrow> (Inl (RpcFault ''invalid values''), r))"

definition odoo_import :: "(string \<Rightarrow> string option) \<Rightarrow> odoo \<Rightarrow> pyval \<Rightarrow> (exn + pyval) \<times> odoo" where
  "odoo_import importer r a =
     (case a of
        VList [VList [VInt i]] \<Rightarrow>
          if 0 < i \<and> nat i \<le> length (staged r)
          then (case importer (fst (staged r ! (nat i - 1))) of
                  None \<Rightarrow> (Inl (RpcFault ''import failed''), r)
                | Some s \<Rightarrow>
                    (Inr (VBool True),
                     r\<lparr>statements := statements r @ [(int (Suc (length (statements r))), s)]\<rparr>))
          else (Inl (RpcFault ''missing record''), r)
      | _ \<Rightarrow> (Inl (RpcFault ''invalid ids''), r))"

definition sample_server :: "(string \<Rightarrow> string option) \<Rightarrow> (nat \<Rightarrow> exn + pyval) \<Rightarrow> odoo server" where
  "sample_server importer auth r c =
     (case c of
        Authenticate url d u p ctx \<Rightarrow> (auth (logins r), r\<lparr>logins := Suc (logins r)\<rparr>)
      | ExecuteKw url d uid p model method a \<Rightarrow>
          if model = ''account.bank.statement'' \<and> method = ''search'' then odoo_search r a
          else if model = ''account.statement.import'' \<and> method = ''create'' then odoo_create r a
          else if model = ''account.statement.import'' \<and> method = ''import_file_button''
          then odoo_import importer r a
          else (Inl (RpcFault ''unknown method''), r))"

definition empty_odoo :: odoo where
  "empty_odoo = \<lparr>statements = [], staged = [], logins = 0\<rparr>"

definition start :: "'r \<Rightarrow> 'r world" where
  "start r = \<lparr>log_level = WARNING, out = [], trace = [], remote = r\<rparr>"

definition sample_args :: args where
  "sample_args =
     \<lparr>directory = ''stmts'', odoo_url = ''https://odoo.example.com'', db = ''mydb'',
      username = ''admin'', password = ''secret'', test_connection = False, blank = False,
      debug = False\<rparr>"

definition uid_by_login :: "nat \<Rightarrow> exn + pyval" where
  "uid_by_login k = Inr (VInt (2 + 5 * int k))"

definition second_login_fails :: "nat \<Rightarrow> exn + pyval" where
  "second_login_fails k = (if k = 0 then Inr (VInt 2) else Inl (OSError ''Connection reset by peer''))"

definition missing_args :: args where
  "missing_args = sample_args\<lparr>directory := ''missing''\<rparr>"

definition mixed_args :: args where
  "mixed_args = sample_args\<lparr>directory := ''mixed''\<rparr>"

definition sample_url :: string where
  "sample_url = ''https://odoo.example.com''"


definition accepting :: "string \<Rightarrow> string option" where
  "accepting f = Some ''STMT-001''"



section \<open>Facts about logging and loops\<close>

lemma levelno_le_ERROR [simp]: "levelno l \<le> 40"
  by (cases l) simp_all

lemma logmsg_ERROR [simp]: "logmsg ERROR m w = w\<lparr>out := out w @ [Log ERROR m]\<rparr>"
  by (simp add: logmsg_def)

lemma logmsg_fields [simp]:
  "trace (logmsg lvl m w) = trace w"
  "remote (logmsg lvl m w) = remote w"
  "log_level (logmsg lvl m w) = log_level w"
  by (simp_all add: logmsg_def)

lemma print_fields [simp]:
  "trace (print m w) = trace w"
  "remote (print m w) = remote w"
  "log_level (print m w) = log_level w"
  "out (print m w) = out w @ [Print m]"
  by (simp_all add: print_def)

lemma entry_nodes_findall:
  "tag root \<noteq> qname ''Ntry'' \<Longrightarrow> entry_nodes root = findall_desc ''Ntry'' root"
  by (cases root) (simp add: entry_nodes_def findall_desc_def)

lemma rpc_world:
  "rpc srv c w = (fst (srv (remote w) c),
                  w\<lparr>trace := trace w @ [(c, fst (srv (remote w) c))], remote := snd (srv (remote w) c)\<rparr>)"
  by (simp add: rpc_def split: prod.splits)

lemma setup_logging_fields [simp]:
  "trace (setup_logging d w) = trace w"
  "remote (setup_logging d w) = remote w"
  by (simp_all add: setup_logging_def)

lemma validated_fields [simp]:
  "trace (validated a uid r' w0) = trace w0 @ [(args_call a, Inr uid)]"
  "remote (validated a uid r' w0) = r'"
  by (simp_all add: validated_def after_validation_call_def Let_def)

lemma main_validated:
  assumes "\<not> blank a" and "srv (remote w0) (args_call a) = (Inr uid, r')" and "truthy uid"
  shows "main fs srv a w0 =
           process_directory fs srv (directory a) (odoo_url a) (db a) (username a) (password a)
             (debug a) (validated a uid r' w0)"
  using assms
  by (simp add: main_def validate_odoo_connection_def rpc_world Let_def after_validation_call_def
      validated_def args_call_def)

lemma extract_keeps:
  "extract_stmt_id fs n p w = Inl w' \<Longrightarrow> trace w' = trace w \<and> remote w' = remote w"
  by (auto simp: extract_stmt_id_def split: sum.splits option.splits if_splits)

lemma is_blank_keeps:
  "trace (snd (is_blank_camt053 fs p w)) = trace w" "remote (snd (is_blank_camt053 fs p w)) = remote w"
  by (simp_all add: is_blank_camt053_def Let_def split: sum.splits)

lemma sends_refl: "trace w' = trace w \<Longrightarrow> remote w' = remote w \<Longrightarrow> sends srv P w w'"
  by (simp add: sends_def replay_def)

lemma sends_trans:
  assumes "sends srv P w w'" and "sends srv P w' w''"
  shows "sends srv P w w''"
proof -
  from assms(1) obtain n1 where 1: "trace w' = trace w @ n1" "list_all P n1"
    "remote w' = replay srv (remote w) n1"
    unfolding sends_def by blast
  from assms(2) obtain n2 where 2: "trace w'' = trace w' @ n2" "list_all P n2"
    "remote w'' = replay srv (remote w') n2"
    unfolding sends_def by blast
  have "trace w'' = trace w @ (n1 @ n2)" "list_all P (n1 @ n2)"
    "remote w'' = replay srv (remote w) (n1 @ n2)"
    using 1 2 by (simp_all add: replay_def)
  then show ?thesis unfolding sends_def by blast
qed

lemma sends_rpc:
  assumes "\<And>reply. P (c, reply)"
  shows "sends srv P w (snd (rpc srv c w))"
proof -
  have "trace (snd (rpc srv c w)) = trace w @ [(c, fst (srv (remote w) c))]"
    "list_all P [(c, fst (srv (remote w) c))]"
    "remote (snd (rpc srv c w)) = replay srv (remote w) [(c, fst (srv (remote w) c))]"
    using assms by (simp_all add: rpc_world replay_def)
  then show ?thesis unfolding sends_def by blast
qed

lemma sends_logmsg: "sends srv P w w' \<Longrightarrow> sends srv P w (logmsg lvl m w')"
  by (simp add: sends_def)

lemma upload_stage_sends:
  assumes "\<And>enc reply. P (create_call url dbn uid pw n enc, reply)"
    and "\<And>i reply. P (import_call url dbn uid pw i, reply)"
  shows "sends srv P w (snd (upload_stage fs srv url dbn uid pw n p w))"
proof (cases "read_bytes fs p")
  case (Inl e)
  then show ?thesis
    by (simp add: upload_stage_def sends_refl)
next
  case (Inr data)
  obtain r1 w1 where c: "rpc srv (create_call url dbn uid pw n (b64encode data)) w = (r1, w1)"
    by (cases "rpc srv (create_call url dbn uid pw n (b64encode data)) w")
  from sends_rpc [of P "create_call url dbn uid pw n (b64encode data)" srv w] assms(1) c
  have 1: "sends srv P w w1" by simp
  show ?thesis
  proof (cases r1)
    case (Inl e)
    with Inr c 1 show ?thesis
      by (simp add: upload_stage_def Let_def sends_logmsg del: logmsg_ERROR)
  next
    case (Inr rec_id)
    obtain r2 w2 where i: "rpc srv (import_call url dbn uid pw rec_id) w1 = (r2, w2)"
      by (cases "rpc srv (import_call url dbn uid pw rec_id) w1")
    from sends_rpc [of P "import_call url dbn uid pw rec_id" srv w1] assms(2) i
    have "sends srv P w1 w2" by simp
    with 1 have "sends srv P w w2" by (rule sends_trans)
    with Inr \<open>read_bytes fs p = Inr data\<close> c i show ?thesis
      by (cases r2) (simp_all add: upload_stage_def Let_def sends_logmsg del: logmsg_ERROR)
  qed
qed

lemma exists_stage_sends:
  assumes "\<And>reply. P (search_call url dbn uid pw sid, reply)"
    and "\<And>enc reply. P (create_call url dbn uid pw n enc, reply)"
    and "\<And>i reply. P (import_call url dbn uid pw i, reply)"
  shows "sends srv P w (snd (exists_stage fs srv url dbn uid pw dbg n p sid w))"
proof -
  define w1 where "w1 = (if dbg
        then logmsg DEBUG [S ''Extracted statement ID: '', S sid, S '' from file: '', S n] w
        else w)"
  have 0: "sends srv P w w1"
    by (simp add: w1_def sends_refl)
  obtain r w2 where c: "rpc srv (search_call url dbn uid pw sid) w1 = (r, w2)"
    by (cases "rpc srv (search_call url dbn uid pw sid) w1")
  from sends_rpc [of P "search_call url dbn uid pw sid" srv w1] assms(1) c
  have "sends srv P w1 w2" by simp
  with 0 have 2: "sends srv P w w2" by (rule sends_trans)
  from 2 upload_stage_sends [of P url dbn uid pw n srv w2 fs p] assms(2,3)
  have 3: "sends srv P w (snd (upload_stage fs srv url dbn uid pw n p w2))"
    using sends_trans by blast
  show ?thesis
    using c 2 3
    by (cases r) (simp_all add: exists_stage_def Let_def w1_def sends_logmsg del: logmsg_ERROR)
qed

lemma extract_sends:
  "extract_stmt_id fs n p w = Inl w' \<Longrightarrow> sends srv P w w'"
  by (auto simp: extract_stmt_id_def sends_refl split: sum.splits option.splits if_splits)

lemma process_body_sends:
  assumes "\<And>sid reply. P (search_call url dbn uid pw sid, reply)"
    and "\<And>enc reply. P (create_call url dbn uid pw n enc, reply)"
    and "\<And>i reply. P (import_call url dbn uid pw i, reply)"
  shows "sends srv P w (snd (process_body fs srv url dbn uid pw dbg d n w))"
proof (cases "endswith n ''.xml''")
  case False
  then show ?thesis by (simp add: process_body_def Let_def sends_refl)
next
  case True
  define w1 where "w1 = (if dbg then logmsg DEBUG [S ''Inspecting file: '', S n] w else w)"
  obtain res w2 where b: "is_blank_camt053 fs (path_join d n) w1 = (res, w2)"
    by (cases "is_blank_camt053 fs (path_join d n) w1")
  have "trace w2 = trace w" "remote w2 = remote w"
    using is_blank_keeps [of fs "path_join d n" w1] b by (simp_all add: w1_def)
  then have 2: "sends srv P w w2" by (rule sends_refl)
  show ?thesis
  proof (cases res)
    case (Inl e)
    with True b 2 show ?thesis by (simp add: process_body_def Let_def w1_def)
  next
    case (Inr blank)
    show ?thesis
    proof (cases blank)
      case True
      with \<open>endswith n ''.xml''\<close> Inr b 2 show ?thesis
        by (simp add: process_body_def Let_def w1_def sends_logmsg)
    next
      case False
      show ?thesis
      proof (cases "extract_stmt_id fs n (path_join d n) w2")
        case (Inl w3)
        from extract_sends [OF Inl] 2 have "sends srv P w w3" using sends_trans by blast
        with \<open>endswith n ''.xml''\<close> Inr False b Inl show ?thesis
          by (simp add: process_body_def Let_def w1_def)
      next
        case (Inr sid)
        from exists_stage_sends [of P url dbn uid pw sid n srv w2 fs dbg "path_join d n"] assms 2
        have "sends srv P w (snd (exists_stage fs srv url dbn uid pw dbg n (path_join d n) sid w2))"
          using sends_trans by blast
        with Inr \<open>endswith n ''.xml''\<close> \<open>res = Inr blank\<close> False b show ?thesis
          by (simp add: process_body_def Let_def w1_def)
      qed
    qed
  qed
qed

lemma for_each_sends:
  assumes "\<And>x w. I (remote w) \<Longrightarrow> sends srv P w (snd (body x w)) \<and> I (remote (snd (body x w)))"
    and "I (remote w)"
  shows "sends srv P w (snd (for_each body xs w)) \<and> I (remote (snd (for_each body xs w)))"
  using assms(2)
proof (induction xs arbitrary: w)
  case Nil
  then show ?case by (simp add: sends_refl)
next
  case (Cons x xs)
  obtain res w' where b: "body x w = (res, w')" by (cases "body x w")
  from assms(1) [OF Cons.prems, of x] b have 1: "sends srv P w w'" "I (remote w')"
    by simp_all
  show ?case
  proof (cases res)
    case (Inl e)
    with b 1 show ?thesis by simp
  next
    case (Inr u)
    from Cons.IH [OF 1(2)] 1(1)
    have "sends srv P w (snd (for_each body xs w'))" "I (remote (snd (for_each body xs w')))"
      using sends_trans by blast+
    with b Inr show ?thesis by simp
  qed
qed

lemma process_body_uses_uid:
  "sends srv (uses_uid uid) w (snd (process_body fs srv url dbn uid pw dbg d n w))"
  by (rule process_body_sends) (simp_all add: search_call_def create_call_def import_call_def)

lemma import_loop_uses_uid:
  "sends srv (uses_uid uid) w (snd (for_each (process_body fs srv url dbn uid pw dbg d) names w))"
  using for_each_sends [where I = "\<lambda>r. True" and srv = srv and P = "uses_uid uid"
      and body = "process_body fs srv url dbn uid pw dbg d" and w = w and xs = names]
    process_body_uses_uid [of srv uid _ fs url dbn pw dbg d]
  by simp

section \<open>The blankness check\<close>

text \<open>
  C1. For a file that parses, the blankness check returns true exactly when the document
  has no transaction-entry node of the namespace. The root of a CAMT.053 document is its
  \<open>Document\<close> element; the statement holds for every root that is not itself an
  \<open>Ntry\<close> element, the one node that \<^verbatim>\<open>findall(".//ns:Ntry")\<close> does not visit.
\<close>

theorem is_blank_iff_no_entries:
  assumes "parse_path fs p = Inr root" and "tag root \<noteq> qname ''Ntry''"
  shows "fst (is_blank_camt053 fs p w) = Inr (entry_nodes root = [])"
  using assms by (simp add: is_blank_camt053_def Let_def entry_nodes_findall)

lemma sample_parse_A: "parse_path sample_fs ''stmts/camt.053_A.xml'' = Inr doc_A"
  by (simp add: sample_fs_def sample_parse_def sample_files_def)

lemma sample_parse_B: "parse_path sample_fs ''stmts/camt.053_B.xml'' = Inr doc_B"
  by (simp add: sample_fs_def sample_parse_def sample_files_def)

lemma sample_parse_bad:
  "parse_path sample_fs ''inbox/bad.xml'' = Inl (ParseError ''no element found: line 1, column 10'')"
  by (simp add: sample_fs_def sample_parse_def sample_files_def)

theorem is_blank_iff_no_entries_witness:
  "fst (is_blank_camt053 sample_fs ''stmts/camt.053_B.xml'' (start empty_odoo)) = Inr False
   \<and> fst (is_blank_camt053 sample_fs ''stmts/camt.053_A.xml'' (start empty_odoo)) = Inr True"
proof -
  have tB: "tag doc_B \<noteq> qname ''Ntry''" and tA: "tag doc_A \<noteq> qname ''Ntry''"
    by (simp_all add: doc_A_def doc_B_def stmt_doc_def qname_def)
  have eB: "entry_nodes doc_B \<noteq> []" and eA: "entry_nodes doc_A = []"
    by (simp_all add: entry_nodes_def doc_A_def doc_B_def stmt_doc_def qname_def)
  show ?thesis
    using is_blank_iff_no_entries [OF sample_parse_B tB, of "start empty_odoo"]
          is_blank_iff_no_entries [OF sample_parse_A tA, of "start empty_odoo"] eA eB
    by simp
qed

text \<open>
  C4, as stated, fails: on a file that is not well-formed the blankness check does return
  a truth value, \<^verbatim>\<open>False\<close>. The parse error reaches the log only.
\<close>

theorem malformed_returns_false_counterexample:
  "is_blank_camt053 sample_fs ''inbox/bad.xml'' (start empty_odoo) =
     (Inr False,
      (start empty_odoo)
        \<lparr>out := [Log ERROR [S ''Error parsing XML file '', S ''inbox/bad.xml'', S '': '',
                             E (ParseError ''no element found: line 1, column 10'')]]\<rparr>)"
  by (simp add: is_blank_camt053_def Let_def sample_parse_bad logmsg_def start_def)

text \<open>
  C4, amended. For every file on which \<^verbatim>\<open>ET.parse\<close> raises \<^verbatim>\<open>ParseError\<close>, the
  blankness check catches the error, logs it at level ERROR and returns \<^verbatim>\<open>False\<close>:
  the file counts as not blank, and the parse error is not the outcome of the check.
\<close>

theorem malformed_is_logged_not_blank:
  assumes "parse_path fs p = Inl (ParseError m)"
  shows "is_blank_camt053 fs p w =
           (Inr False,
            logmsg ERROR [S ''Error parsing XML file '', S p, S '': '', E (ParseError m)]
              (logmsg DEBUG [S ''Checking file for blank status: '', S p] w))
         \<and> Log ERROR [S ''Error parsing XML file '', S p, S '': '', E (ParseError m)]
             \<in> set (out (snd (is_blank_camt053 fs p w)))"
  using assms by (simp add: is_blank_camt053_def Let_def)

theorem malformed_is_logged_not_blank_witness:
  "fst (is_blank_camt053 sample_fs ''inbox/bad.xml'' (start empty_odoo)) = Inr False
   \<and> Log ERROR [S ''Error parsing XML file '', S ''inbox/bad.xml'', S '': '',
                 E (ParseError ''no element found: line 1, column 10'')]
       \<in> set (out (snd (is_blank_camt053 sample_fs ''inbox/bad.xml'' (start empty_odoo))))"
  using malformed_is_logged_not_blank [OF sample_parse_bad, of "start empty_odoo"]
  by simp

text \<open>
  Any other exception of the parser is not caught by the check: it is the outcome, and
  nothing is logged at level ERROR.
\<close>

lemma blank_check_propagates_other_exceptions:
  assumes "parse_path fs p = Inl e" and "\<not> is_ParseError e"
  shows "is_blank_camt053 fs p w =
           (Inl e, logmsg DEBUG [S ''Checking file for blank status: '', S p] w)"
  using assms by (simp add: is_blank_camt053_def Let_def)

section \<open>The blank-detection workflow\<close>

text \<open>
  C6, as stated, fails: the blank-detection workflow does not process
  \<^verbatim>\<open>CAMT.053_2025.XML\<close>. The file is a blank statement, yet it is skipped as a
  non-CAMT.053 file and never reported, because \<^verbatim>\<open>endswith(".xml")\<close> compares
  the suffix as it is written.
\<close>

theorem upper_case_suffix_skipped_counterexample:
  "blanks_body sample_fs ''inbox'' ''CAMT.053_2025.XML'' ((start empty_odoo)\<lparr>log_level := DEBUG\<rparr>) =
     (Inr (),
      (start empty_odoo)
        \<lparr>log_level := DEBUG,
          out := [Log DEBUG [S ''Inspecting file: '', S ''CAMT.053_2025.XML''],
                  Log DEBUG [S ''Skipping non-CAMT.053 file: '', S ''CAMT.053_2025.XML'']]\<rparr>)"
  by (simp add: blanks_body_def Let_def endswith_def logmsg_def start_def)

text \<open>
  C6, amended. The filter of the blank-detection workflow skips \<^verbatim>\<open>statement.xml\<close>
  (no prefix) and also \<^verbatim>\<open>CAMT.053_2025.XML\<close> (upper-case suffix), whatever the
  files hold; it hands \<^verbatim>\<open>CAMT.053_2025.xml\<close> to the blankness check. In general a
  name is classified exactly when its lower-cased form starts with \<^verbatim>\<open>camt.053\<close> and
  the name itself ends in \<^verbatim>\<open>.xml\<close>: the prefix is matched without regard to case,
  the suffix with regard to it.
\<close>

lemma lower_prefix_camt: "startswith (lower ''CAMT.053_2025.xml'') ''camt.053''"
  by code_simp

theorem blank_filter_prefix_any_case_suffix_exact:
  "blanks_body fs d ''statement.xml'' w = skipped_by_filter ''statement.xml'' w
   \<and> blanks_body fs d ''CAMT.053_2025.XML'' w = skipped_by_filter ''CAMT.053_2025.XML'' w
   \<and> blanks_body fs d ''CAMT.053_2025.xml'' w = classified fs d ''CAMT.053_2025.xml'' w
   \<and> blanks_body fs d n w =
       (if startswith (lower n) ''camt.053'' \<and> endswith n ''.xml''
        then classified fs d n w else skipped_by_filter n w)"
proof -
  have 1: "blanks_body fs d ''statement.xml'' w = skipped_by_filter ''statement.xml'' w"
    by (simp add: blanks_body_def skipped_by_filter_def Let_def startswith_def lower_def)
  have 2: "blanks_body fs d ''CAMT.053_2025.XML'' w = skipped_by_filter ''CAMT.053_2025.XML'' w"
    by (simp add: blanks_body_def skipped_by_filter_def Let_def endswith_def)
  have e: "endswith ''CAMT.053_2025.xml'' ''.xml''"
    by (simp add: endswith_def)
  have 3: "blanks_body fs d ''CAMT.053_2025.xml'' w = classified fs d ''CAMT.053_2025.xml'' w"
    unfolding blanks_body_def classified_def Let_def using lower_prefix_camt e by simp
  have 4: "blanks_body fs d n w =
       (if startswith (lower n) ''camt.053'' \<and> endswith n ''.xml''
        then classified fs d n w else skipped_by_filter n w)"
    by (simp add: blanks_body_def classified_def skipped_by_filter_def Let_def)
  from 1 2 3 4 show ?thesis by blast
qed

theorem blank_filter_prefix_any_case_suffix_exact_witness:
  "blanks_body sample_fs ''stmts'' ''camt.053_A.xml'' (start empty_odoo) =
     (Inr (), (start empty_odoo)\<lparr>out := [Print [S ''Blank file detected: '', S ''camt.053_A.xml'']]\<rparr>)
   \<and> blanks_body sample_fs ''stmts'' ''Camt.053_A.XML'' (start empty_odoo) = (Inr (), start empty_odoo)"
proof -
  have p: "startswith (lower ''camt.053_A.xml'') ''camt.053''"
    by code_simp
  have e: "endswith ''camt.053_A.xml'' ''.xml''" "\<not> endswith ''Camt.053_A.XML'' ''.xml''"
    by (simp_all add: endswith_def)
  have j: "path_join ''stmts'' ''camt.053_A.xml'' = ''stmts/camt.053_A.xml''"
    by (simp add: path_join_def startswith_def endswith_def)
  have f: "findall_desc ''Ntry'' doc_A = []"
    by (simp add: findall_desc_def doc_A_def stmt_doc_def qname_def)
  have c: "classified sample_fs ''stmts'' ''camt.053_A.xml'' (start empty_odoo) =
     (Inr (), (start empty_odoo)\<lparr>out := [Print [S ''Blank file detected: '', S ''camt.053_A.xml'']]\<rparr>)"
    by (simp add: classified_def j is_blank_camt053_def sample_parse_A f Let_def logmsg_def
        print_def start_def)
  have s: "skipped_by_filter ''Camt.053_A.XML'' (start empty_odoo) = (Inr (), start empty_odoo)"
    by (simp add: skipped_by_filter_def logmsg_def start_def)
  show ?thesis
    using blank_filter_prefix_any_case_suffix_exact
            [of sample_fs "''stmts''" "start empty_odoo" "''camt.053_A.xml''"]
          blank_filter_prefix_any_case_suffix_exact
            [of sample_fs "''stmts''" "start empty_odoo" "''Camt.053_A.XML''"]
          p e c s
    by simp
qed

section \<open>Connection validation and the second login\<close>

text \<open>
  C7. Without \<^verbatim>\<open>--blank\<close>, the run starts with one login. When the reply is a
  truthy user identifier, it is printed and the run goes on to \<^verbatim>\<open>process_directory\<close>.
  When the reply is falsy, or the call raises, the failure is logged, the failure message
  is printed, and the run returns normally with that single call made and no question
  asked of the file system.
\<close>

theorem connection_validation_gates_the_run:
  assumes "\<not> blank a" and "srv (remote w0) (args_call a) = (reply, r')"
  shows "main fs srv a w0 =
     (case reply of
        Inr uid \<Rightarrow>
          if truthy uid
          then process_directory fs srv (directory a) (odoo_url a) (db a) (username a) (password a)
                 (debug a) (validated a uid r' w0)
          else (Inr (), print [S ''Failed to connect to Odoo. Exiting.'']
                          (print [S ''Authentication failed.'']
                             (logmsg ERROR [S ''Authentication failed.'']
                                (after_validation_call a reply r' w0))))
      | Inl e \<Rightarrow>
          (Inr (), print [S ''Failed to connect to Odoo. Exiting.'']
                     (log_exception [S ''Error connecting to Odoo:''] e
                        (after_validation_call a reply r' w0))))"
  using assms
  by (simp add: main_def validate_odoo_connection_def rpc_world Let_def after_validation_call_def
      validated_def args_call_def split: sum.splits)

lemma sample_login:
  "sample_server importer auth (remote (start empty_odoo)) (args_call sample_args) =
     (auth 0, empty_odoo\<lparr>logins := 1\<rparr>)"
  by (simp add: sample_server_def args_call_def authenticate_call_def start_def empty_odoo_def)

lemma sample_not_blank: "\<not> blank sample_args"
  by (simp add: sample_args_def)

lemmas validation_eval =
  after_validation_call_def validated_def setup_logging_def logmsg_def print_def log_exception_def
  start_def sample_args_def args_call_def authenticate_call_def Let_def

theorem connection_validation_gates_the_run_witness:
  "main sample_fs (sample_server (\<lambda>f. None) (\<lambda>k. Inr (VInt 2))) sample_args (start empty_odoo) =
     process_directory sample_fs (sample_server (\<lambda>f. None) (\<lambda>k. Inr (VInt 2))) ''stmts''
       ''https://odoo.example.com'' ''mydb'' ''admin'' ''secret'' False
       \<lparr>log_level = INFO, out = [Print [S ''Connection successful: User ID '', V (VInt 2)]],
        trace = [(args_call sample_args, Inr (VInt 2))], remote = empty_odoo\<lparr>logins := 1\<rparr>\<rparr>
   \<and> main sample_fs (sample_server (\<lambda>f. None) (\<lambda>k. Inr (VBool False))) sample_args (start empty_odoo) =
       (Inr (),
        \<lparr>log_level = INFO,
         out = [Log ERROR [S ''Authentication failed.''], Print [S ''Authentication failed.''],
                Print [S ''Failed to connect to Odoo. Exiting.'']],
         trace = [(args_call sample_args, Inr (VBool False))], remote = empty_odoo\<lparr>logins := 1\<rparr>\<rparr>)
   \<and> main sample_fs (sample_server (\<lambda>f. None) (\<lambda>k. Inl (OSError ''Connection refused''))) sample_args
         (start empty_odoo) =
       (Inr (),
        \<lparr>log_level = INFO,
         out = [Log ERROR [S ''Error connecting to Odoo:'', E (OSError ''Connection refused'')],
                Print [S ''Failed to connect to Odoo. Exiting.'']],
         trace = [(args_call sample_args, Inl (OSError ''Connection refused''))],
         remote = empty_odoo\<lparr>logins := 1\<rparr>\<rparr>)"
proof -
  note inst = connection_validation_gates_the_run
                [where a = sample_args and ?w0.0 = "start empty_odoo" and fs = sample_fs,
                 OF sample_not_blank]
  show ?thesis
    using inst [where srv = "sample_server (\<lambda>f. None) (\<lambda>k. Inr (VInt 2))", OF sample_login]
          inst [where srv = "sample_server (\<lambda>f. None) (\<lambda>k. Inr (VBool False))", OF sample_login]
          inst [where srv = "sample_server (\<lambda>f. None) (\<lambda>k. Inl (OSError ''Connection refused''))",
               OF sample_login]
    by (simp add: validation_eval)
qed

text \<open>
  C9. \<^verbatim>\<open>process_directory\<close> logs in a second time, outside any \<^verbatim>\<open>try\<close>. When
  that call raises, the exception leaves \<^verbatim>\<open>main\<close> with only the two logins made.
  When it returns, every later remote call carries the identifier it returned, whatever
  the pre-flight login returned.
\<close>

theorem second_authenticate_unguarded:
  assumes "\<not> blank a" and "srv (remote w0) (args_call a) = (Inr uid1, r1)" and "truthy uid1"
    and "srv r1 (args_call a) = (reply2, r2)"
  shows "case reply2 of
           Inl e \<Rightarrow>
             main fs srv a w0 =
               (Inl e, (entering a (validated a uid1 r1 w0))
                          \<lparr>trace := trace w0 @ [(args_call a, Inr uid1), (args_call a, Inl e)],
                            remote := r2\<rparr>)
         | Inr uid2 \<Rightarrow>
             (\<exists>new. trace (snd (main fs srv a w0)) =
                      trace w0 @ [(args_call a, Inr uid1), (args_call a, Inr uid2)] @ new
                    \<and> list_all (uses_uid uid2) new)"
proof (cases reply2)
  note mv = main_validated [where srv = srv and a = a and ?w0.0 = w0 and fs = fs, OF assms(1-3)]
  case (Inl e)
  with assms(4) show ?thesis
    unfolding mv
    by (simp add: process_directory_def rpc_world Let_def entering_def args_call_def)
next
  note mv = main_validated [where srv = srv and a = a and ?w0.0 = w0 and fs = fs, OF assms(1-3)]
  case (Inr uid2)
  let ?w2 = "(entering a (validated a uid1 r1 w0))
               \<lparr>trace := trace w0 @ [(args_call a, Inr uid1), (args_call a, Inr uid2)], remote := r2\<rparr>"
  have t2: "trace ?w2 = trace w0 @ [(args_call a, Inr uid1), (args_call a, Inr uid2)]"
    by simp
  have au: "srv r1 (authenticate_call (odoo_url a) (db a) (username a) (password a)) = (Inr uid2, r2)"
    using assms(4) Inr by (simp add: args_call_def)
  show ?thesis
  proof (cases "listdir fs (directory a)")
    case (Inl e)
    have "process_directory fs srv (directory a) (odoo_url a) (db a) (username a) (password a)
              (debug a) (validated a uid1 r1 w0) = (Inl e, ?w2)"
      using au Inl
      by (simp add: process_directory_def rpc_world Let_def entering_def args_call_def)
    with \<open>reply2 = Inr uid2\<close> show ?thesis
      unfolding mv by simp
  next
    case (Inr names)
    have pd: "process_directory fs srv (directory a) (odoo_url a) (db a) (username a) (password a)
              (debug a) (validated a uid1 r1 w0) =
              for_each (process_body fs srv (odoo_url a) (db a) uid2 (password a) (debug a)
                             (directory a)) names ?w2"
      using au Inr
      by (simp add: process_directory_def rpc_world Let_def entering_def args_call_def)
    obtain new where
      "trace (snd (for_each (process_body fs srv (odoo_url a) (db a) uid2 (password a) (debug a)
                     (directory a)) names ?w2)) = trace ?w2 @ new"
      "list_all (uses_uid uid2) new"
      using import_loop_uses_uid [of srv uid2 ?w2 fs "odoo_url a" "db a" "password a" "debug a"
          "directory a" names]
      unfolding sends_def by blast
    with \<open>reply2 = Inr uid2\<close> show ?thesis
      unfolding mv pd t2 by simp
  qed
qed

lemma sample_second_login:
  "sample_server importer auth (empty_odoo\<lparr>logins := 1\<rparr>) (args_call sample_args) =
     (auth 1, empty_odoo\<lparr>logins := 2\<rparr>)"
  by (simp add: sample_server_def args_call_def authenticate_call_def empty_odoo_def)

theorem second_authenticate_unguarded_witness:
  "(\<exists>new. trace (snd (main sample_fs (sample_server (\<lambda>f. Some ''STMT-001'') uid_by_login) sample_args
                         (start empty_odoo))) =
            [(args_call sample_args, Inr (VInt 2)), (args_call sample_args, Inr (VInt 7))] @ new
          \<and> list_all (uses_uid (VInt 7)) new)
   \<and> fst (main sample_fs (sample_server (\<lambda>f. Some ''STMT-001'') second_login_fails) sample_args
            (start empty_odoo)) = Inl (OSError ''Connection reset by peer'')
   \<and> trace (snd (main sample_fs (sample_server (\<lambda>f. Some ''STMT-001'') second_login_fails) sample_args
            (start empty_odoo))) =
       [(args_call sample_args, Inr (VInt 2)),
        (args_call sample_args, Inl (OSError ''Connection reset by peer''))]"
proof -
  note inst = second_authenticate_unguarded
                [where a = sample_args and ?w0.0 = "start empty_odoo" and fs = sample_fs,
                 OF sample_not_blank]
  have l1: "sample_server (\<lambda>f. Some ''STMT-001'') uid_by_login (remote (start empty_odoo))
              (args_call sample_args) = (Inr (VInt 2), empty_odoo\<lparr>logins := 1\<rparr>)"
    using sample_login [of "\<lambda>f. Some ''STMT-001''" uid_by_login] by (simp add: uid_by_login_def)
  have l2: "sample_server (\<lambda>f. Some ''STMT-001'') uid_by_login (empty_odoo\<lparr>logins := 1\<rparr>)
              (args_call sample_args) = (Inr (VInt 7), empty_odoo\<lparr>logins := 2\<rparr>)"
    using sample_second_login [of "\<lambda>f. Some ''STMT-001''" uid_by_login] by (simp add: uid_by_login_def)
  have f1: "sample_server (\<lambda>f. Some ''STMT-001'') second_login_fails (remote (start empty_odoo))
              (args_call sample_args) = (Inr (VInt 2), empty_odoo\<lparr>logins := 1\<rparr>)"
    using sample_login [of "\<lambda>f. Some ''STMT-001''" second_login_fails]
    by (simp add: second_login_fails_def)
  have f2: "sample_server (\<lambda>f. Some ''STMT-001'') second_login_fails (empty_odoo\<lparr>logins := 1\<rparr>)
              (args_call sample_args) =
            (Inl (OSError ''Connection reset by peer''), empty_odoo\<lparr>logins := 2\<rparr>)"
    using sample_second_login [of "\<lambda>f. Some ''STMT-001''" second_login_fails]
    by (simp add: second_login_fails_def)
  have t: "truthy (VInt 2)" by simp
  have e: "trace (start empty_odoo) = []" by (simp add: start_def)
  show ?thesis
    using inst [where srv = "sample_server (\<lambda>f. Some ''STMT-001'') uid_by_login", OF l1 t l2]
          inst [where srv = "sample_server (\<lambda>f. Some ''STMT-001'') second_login_fails", OF f1 t f2]
    by (simp add: e)
qed

section \<open>A directory that cannot be listed\<close>

text \<open>
  C10. \<^verbatim>\<open>os.listdir\<close> is called outside any \<^verbatim>\<open>try\<close> in both workflows. When it
  raises, the exception leaves the workflow function and \<^verbatim>\<open>main\<close>: the blank-detection
  run has written its directory-level debug lines only, the import run has made its two
  logins only, and no file has been looked at.
\<close>

theorem listing_failure_aborts_run:
  assumes "listdir fs (directory a) = Inl e"
  shows "process_directory_for_blanks fs (directory a) w =
           (Inl e, logmsg DEBUG [S ''Processing directory for blank files: '', S (directory a)] w)
       \<and> (blank a \<longrightarrow>
            main fs srv a w =
              (Inl e, logmsg DEBUG [S ''Processing directory for blank files: '', S (directory a)]
                        (logmsg DEBUG [S ''--blank flag detected. Skipping database connection.'']
                           (setup_logging (debug a) w))))
       \<and> (\<forall>uid r'. srv (remote w) (authenticate_call url dbn u p) = (Inr uid, r') \<longrightarrow>
            process_directory fs srv (directory a) url dbn u p dbg w =
              (Inl e, (if dbg then logmsg DEBUG [S ''Processing directory: '', S (directory a)] w else w)
                        \<lparr>trace := trace w @ [(authenticate_call url dbn u p, Inr uid)], remote := r'\<rparr>))
       \<and> (\<forall>uid1 r1 uid2 r2.
            \<not> blank a \<and> srv (remote w) (args_call a) = (Inr uid1, r1) \<and> truthy uid1
              \<and> srv r1 (args_call a) = (Inr uid2, r2) \<longrightarrow>
            main fs srv a w =
              (Inl e, (entering a (validated a uid1 r1 w))
                        \<lparr>trace := trace w @ [(args_call a, Inr uid1), (args_call a, Inr uid2)],
                          remote := r2\<rparr>))"
proof -
  have 1: "process_directory_for_blanks fs (directory a) w =
           (Inl e, logmsg DEBUG [S ''Processing directory for blank files: '', S (directory a)] w)"
    for w :: "'a world"
    using assms by (simp add: process_directory_for_blanks_def Let_def)
  have 2: "blank a \<Longrightarrow> main fs srv a w =
              (Inl e, logmsg DEBUG [S ''Processing directory for blank files: '', S (directory a)]
                        (logmsg DEBUG [S ''--blank flag detected. Skipping database connection.'']
                           (setup_logging (debug a) w)))"
    by (simp add: main_def Let_def 1)
  have 3: "process_directory fs srv (directory a) url dbn u p dbg w =
              (Inl e, (if dbg then logmsg DEBUG [S ''Processing directory: '', S (directory a)] w else w)
                        \<lparr>trace := trace w @ [(authenticate_call url dbn u p, Inr uid)], remote := r'\<rparr>)"
    if "srv (remote w) (authenticate_call url dbn u p) = (Inr uid, r')"
    for uid r' url dbn u p dbg and w :: "'a world"
    using assms that by (simp add: process_directory_def rpc_world Let_def)
  have 4: "main fs srv a w =
              (Inl e, (entering a (validated a uid1 r1 w))
                        \<lparr>trace := trace w @ [(args_call a, Inr uid1), (args_call a, Inr uid2)],
                          remote := r2\<rparr>)"
    if "\<not> blank a" "srv (remote w) (args_call a) = (Inr uid1, r1)" "truthy uid1"
       "srv r1 (args_call a) = (Inr uid2, r2)" for uid1 r1 uid2 r2
  proof -
    note mv = main_validated [where srv = srv and a = a and ?w0.0 = w and fs = fs, OF that(1-3)]
    have "srv (remote (validated a uid1 r1 w))
            (authenticate_call (odoo_url a) (db a) (username a) (password a)) = (Inr uid2, r2)"
      using that(4) by (simp add: args_call_def)
    from 3 [OF this] show ?thesis
      unfolding mv by (simp add: entering_def args_call_def)
  qed
  from 1 2 3 4 show ?thesis by blast
qed

lemma sample_no_dir: "listdir sample_fs (directory missing_args) = Inl (OSError ''No such file or directory'')"
  by (simp add: sample_fs_def missing_args_def sample_args_def)

lemma missing_args_call: "args_call missing_args = args_call sample_args"
  by (simp add: args_call_def missing_args_def)

theorem listing_failure_aborts_run_witness:
  "process_directory_for_blanks sample_fs ''missing'' (start empty_odoo) =
     (Inl (OSError ''No such file or directory''), start empty_odoo)
   \<and> main sample_fs (sample_server (\<lambda>f. None) uid_by_login) (missing_args\<lparr>blank := True\<rparr>)
         (start empty_odoo) =
       (Inl (OSError ''No such file or directory''), (start empty_odoo)\<lparr>log_level := INFO\<rparr>)
   \<and> main sample_fs (sample_server (\<lambda>f. None) uid_by_login) missing_args (start empty_odoo) =
       (Inl (OSError ''No such file or directory''),
        \<lparr>log_level = INFO, out = [Print [S ''Connection successful: User ID '', V (VInt 2)]],
         trace = [(args_call sample_args, Inr (VInt 2)), (args_call sample_args, Inr (VInt 7))],
         remote = empty_odoo\<lparr>logins := 2\<rparr>\<rparr>)"
proof -
  let ?srv = "sample_server (\<lambda>f. None) uid_by_login"
  have d: "listdir sample_fs (directory (missing_args\<lparr>blank := True\<rparr>)) =
             Inl (OSError ''No such file or directory'')"
    using sample_no_dir by simp
  have b: "blank (missing_args\<lparr>blank := True\<rparr>)" by simp
  have nb: "\<not> blank missing_args" by (simp add: missing_args_def sample_args_def)
  have l1: "?srv (remote (start empty_odoo)) (args_call missing_args) =
              (Inr (VInt 2), empty_odoo\<lparr>logins := 1\<rparr>)"
    using sample_login [of "\<lambda>f. None" uid_by_login]
    by (simp add: uid_by_login_def missing_args_call)
  have l2: "?srv (empty_odoo\<lparr>logins := 1\<rparr>) (args_call missing_args) =
              (Inr (VInt 7), empty_odoo\<lparr>logins := 2\<rparr>)"
    using sample_second_login [of "\<lambda>f. None" uid_by_login]
    by (simp add: uid_by_login_def missing_args_call)
  have t: "truthy (VInt 2)" by simp
  have m: "main sample_fs ?srv missing_args (start empty_odoo) =
             (Inl (OSError ''No such file or directory''),
              (entering missing_args (validated missing_args (VInt 2) (empty_odoo\<lparr>logins := 1\<rparr>)
                 (start empty_odoo)))
                \<lparr>trace := trace (start empty_odoo) @
                            [(args_call missing_args, Inr (VInt 2)), (args_call missing_args, Inr (VInt 7))],
                  remote := empty_odoo\<lparr>logins := 2\<rparr>\<rparr>)"
    using listing_failure_aborts_run [OF sample_no_dir, where w = "start empty_odoo" and srv = ?srv]
          nb l1 l2 t
    by blast
  have w: "(entering missing_args (validated missing_args (VInt 2) (empty_odoo\<lparr>logins := 1\<rparr>)
                 (start empty_odoo)))
                \<lparr>trace := trace (start empty_odoo) @
                            [(args_call missing_args, Inr (VInt 2)), (args_call missing_args, Inr (VInt 7))],
                  remote := empty_odoo\<lparr>logins := 2\<rparr>\<rparr> =
           \<lparr>log_level = INFO, out = [Print [S ''Connection successful: User ID '', V (VInt 2)]],
            trace = [(args_call sample_args, Inr (VInt 2)), (args_call sample_args, Inr (VInt 7))],
            remote = empty_odoo\<lparr>logins := 2\<rparr>\<rparr>"
    by (simp add: args_call_def entering_def validated_def after_validation_call_def
        setup_logging_def logmsg_def print_def start_def missing_args_def sample_args_def Let_def)
  show ?thesis
    using listing_failure_aborts_run [OF d, where w = "start empty_odoo" and srv = ?srv] b m w
    by (simp add: missing_args_def sample_args_def start_def logmsg_def setup_logging_def
        args_call_def)
qed

section \<open>One file of the import workflow\<close>

lemma after_blank_check_fields [simp]:
  "trace (after_blank_check fs dbg d n w) = trace w"
  "remote (after_blank_check fs dbg d n w) = remote w"
  "log_level (after_blank_check fs dbg d n w) = log_level w"
  by (simp_all add: after_blank_check_def is_blank_camt053_def Let_def split: sum.splits)

lemma before_search_fields [simp]:
  "trace (before_search fs dbg d n sid w) = trace w"
  "remote (before_search fs dbg d n sid w) = remote w"
  "log_level (before_search fs dbg d n sid w) = log_level w"
  by (simp_all add: before_search_def)

lemma process_body_statement:
  assumes "has_statement fs d n sid"
  shows "process_body fs srv url dbn uid pw dbg d n w =
           exists_stage fs srv url dbn uid pw dbg n (path_join d n) sid (after_blank_check fs dbg d n w)"
proof -
  from assms have x: "endswith n ''.xml''" by (simp add: has_statement_def)
  from assms have b: "fst (is_blank_camt053 fs (path_join d n) w1) = Inr False" for w1 :: "'a world"
    by (auto simp: has_statement_def is_blank_camt053_def Let_def split: sum.splits)
  from assms have e: "extract_stmt_id fs n (path_join d n) w2 = Inr sid" for w2 :: "'a world"
    by (auto simp: has_statement_def extract_stmt_id_def split: sum.splits option.splits)
  obtain res w2 where ib: "is_blank_camt053 fs (path_join d n)
      (if dbg then logmsg DEBUG [S ''Inspecting file: '', S n] w else w) = (res, w2)"
    by (cases "is_blank_camt053 fs (path_join d n)
      (if dbg then logmsg DEBUG [S ''Inspecting file: '', S n] w else w)")
  with b [of "if dbg then logmsg DEBUG [S ''Inspecting file: '', S n] w else w"]
  have r: "res = Inr False" by simp
  have a: "after_blank_check fs dbg d n w = w2"
    using ib by (simp add: after_blank_check_def)
  show ?thesis
    unfolding process_body_def Let_def a using x ib r e [of w2] by simp
qed

lemma exists_stage_search:
  assumes "srv (remote w) (search_call url dbn uid pw sid) = (reply, r0)"
  shows "exists_stage fs srv url dbn uid pw dbg n (path_join d n) sid (after_blank_check fs dbg d n w) =
     (case reply of
        Inl e \<Rightarrow>
          (Inr (), logmsg ERROR [S ''Error checking statement existence in Odoo for '', S sid, S '': '', E e]
                     ((before_search fs dbg d n sid w)
                        \<lparr>trace := trace w @ [(search_call url dbn uid pw sid, reply)], remote := r0\<rparr>))
      | Inr ex \<Rightarrow>
          if truthy ex
          then (Inr (), logmsg INFO [S ''Statement with ID '', S sid,
                                     S '' already exists in Odoo. Skipping file: '', S n]
                          ((before_search fs dbg d n sid w)
                             \<lparr>trace := trace w @ [(search_call url dbn uid pw sid, reply)], remote := r0\<rparr>))
          else upload_stage fs srv url dbn uid pw n (path_join d n)
                 ((before_search fs dbg d n sid w)
                    \<lparr>trace := trace w @ [(search_call url dbn uid pw sid, reply)], remote := r0\<rparr>))"
    (is "_ = ?rhs")
proof -
  have r: "rpc srv (search_call url dbn uid pw sid) (before_search fs dbg d n sid w) =
             (reply, (before_search fs dbg d n sid w)
                       \<lparr>trace := trace w @ [(search_call url dbn uid pw sid, reply)], remote := r0\<rparr>)"
    using assms by (simp add: rpc_world)
  have "exists_stage fs srv url dbn uid pw dbg n (path_join d n) sid (after_blank_check fs dbg d n w) =
        (case rpc srv (search_call url dbn uid pw sid) (before_search fs dbg d n sid w) of
           (Inl e, w2) \<Rightarrow>
             (Inr (), logmsg ERROR [S ''Error checking statement existence in Odoo for '', S sid,
                                    S '': '', E e] w2)
         | (Inr existing_statement, w2) \<Rightarrow>
             if truthy existing_statement
             then (Inr (), logmsg INFO [S ''Statement with ID '', S sid,
                                        S '' already exists in Odoo. Skipping file: '', S n] w2)
             else upload_stage fs srv url dbn uid pw n (path_join d n) w2)"
    unfolding exists_stage_def Let_def before_search_def by (rule refl)
  also have "\<dots> = ?rhs"
    unfolding r by (cases reply) simp_all
  finally show ?thesis .
qed

lemma upload_stage_calls:
  assumes "read_bytes fs p = Inr data"
    and "srv (remote w) (create_call url dbn uid pw n (b64encode data)) = (Inr rec_id, r1)"
    and "srv r1 (import_call url dbn uid pw rec_id) = (reply, r2)"
  shows "upload_stage fs srv url dbn uid pw n p w =
           (Inr (),
            (case reply of
               Inl e \<Rightarrow> logmsg ERROR [S ''Error uploading file '', S n, S '' to Odoo: '', E e]
             | Inr v \<Rightarrow> logmsg INFO [S ''Successfully uploaded file: '', S n, S '' to Odoo.''])
              (w\<lparr>trace := trace w @ [(create_call url dbn uid pw n (b64encode data), Inr rec_id),
                                      (import_call url dbn uid pw rec_id, reply)],
                  remote := r2\<rparr>))"
  using assms
  by (cases reply) (simp_all add: upload_stage_def rpc_world Let_def)

text \<open>
  C8. For a file that reaches the upload, with a readable content and a \<^verbatim>\<open>create\<close>
  that returns, the remote calls made for the file after the existence check are exactly
  two, in this order: \<^verbatim>\<open>create\<close> on \<^verbatim>\<open>account.statement.import\<close> with the
  file name and the base64 text of its bytes, then \<^verbatim>\<open>import_file_button\<close> with the
  returned identifier in a one-element list. Whatever the second call does, the body
  returns normally; when it raises, an ERROR line is logged and the server stays in the
  state the two calls left, staged record included. (When \<^verbatim>\<open>create\<close> itself raises,
  the second call is not made: see \<open>upload_stage_def\<close>.)
\<close>

theorem upload_is_create_then_import:
  assumes "has_statement fs d n sid"
    and "srv (remote w) (search_call url dbn uid pw sid) = (Inr ex, r0)" and "\<not> truthy ex"
    and "read_bytes fs (path_join d n) = Inr data"
    and "srv r0 (ExecuteKw (url @ ''/xmlrpc/2/object'') dbn uid pw ''account.statement.import''
                   ''create''
                   (VList [VDict [(''statement_filename'', VStr n),
                                  (''statement_file'', VStr (b64encode data))]])) = (Inr rec_id, r1)"
    and "srv r1 (ExecuteKw (url @ ''/xmlrpc/2/object'') dbn uid pw ''account.statement.import''
                   ''import_file_button'' (VList [VList [rec_id]])) = (reply, r2)"
  shows "process_body fs srv url dbn uid pw dbg d n w =
           (Inr (),
            (case reply of
               Inl e \<Rightarrow> logmsg ERROR [S ''Error uploading file '', S n, S '' to Odoo: '', E e]
             | Inr v \<Rightarrow> logmsg INFO [S ''Successfully uploaded file: '', S n, S '' to Odoo.''])
              ((before_search fs dbg d n sid w)
                 \<lparr>trace := trace w @
                    [(search_call url dbn uid pw sid, Inr ex),
                     (ExecuteKw (url @ ''/xmlrpc/2/object'') dbn uid pw ''account.statement.import''
                        ''create''
                        (VList [VDict [(''statement_filename'', VStr n),
                                       (''statement_file'', VStr (b64encode data))]]), Inr rec_id),
                     (ExecuteKw (url @ ''/xmlrpc/2/object'') dbn uid pw ''account.statement.import''
                        ''import_file_button'' (VList [VList [rec_id]]), reply)],
                   remote := r2\<rparr>))"
proof -
  let ?w2 = "(before_search fs dbg d n sid w)
               \<lparr>trace := trace w @ [(search_call url dbn uid pw sid, Inr ex)], remote := r0\<rparr>"
  have "process_body fs srv url dbn uid pw dbg d n w =
          upload_stage fs srv url dbn uid pw n (path_join d n) ?w2"
    unfolding process_body_statement [OF assms(1)]
      exists_stage_search [where srv = srv and w = w, OF assms(2)]
    using assms(3) by simp
  moreover have "srv (remote ?w2) (create_call url dbn uid pw n (b64encode data)) = (Inr rec_id, r1)"
    using assms(5) by (simp add: create_call_def)
  moreover have "srv r1 (import_call url dbn uid pw rec_id) = (reply, r2)"
    using assms(6) by (simp add: import_call_def)
  ultimately show ?thesis
    using upload_stage_calls [where srv = srv and w = ?w2 and fs = fs, OF assms(4)]
    by (cases reply) (simp_all add: create_call_def import_call_def)
qed

theorem upload_is_create_then_import_witness:
  "process_body sample_fs (sample_server (\<lambda>f. Some ''STMT-001'') uid_by_login) sample_url ''mydb''
     (VInt 7) ''secret'' False ''stmts'' ''camt.053_B.xml'' (start empty_odoo) =
     (Inr (),
      (start empty_odoo)
        \<lparr>trace :=
           [(search_call sample_url ''mydb'' (VInt 7) ''secret'' ''STMT-001'', Inr (VList [])),
            (create_call sample_url ''mydb'' (VInt 7) ''secret'' ''camt.053_B.xml'' (b64encode bytes_B),
             Inr (VInt 1)),
            (import_call sample_url ''mydb'' (VInt 7) ''secret'' (VInt 1), Inr (VBool True))],
          remote := \<lparr>statements = [(1, ''STMT-001'')],
                      staged = [(''camt.053_B.xml'', b64encode bytes_B)], logins = 0\<rparr>\<rparr>)
   \<and> process_body sample_fs (sample_server (\<lambda>f. None) uid_by_login) sample_url ''mydb''
       (VInt 7) ''secret'' False ''stmts'' ''camt.053_B.xml'' (start empty_odoo) =
       (Inr (),
        (start empty_odoo)
          \<lparr>out := [Log ERROR [S ''Error uploading file '', S ''camt.053_B.xml'', S '' to Odoo: '',
                               E (RpcFault ''import failed'')]],
            trace :=
             [(search_call sample_url ''mydb'' (VInt 7) ''secret'' ''STMT-001'', Inr (VList [])),
              (create_call sample_url ''mydb'' (VInt 7) ''secret'' ''camt.053_B.xml'' (b64encode bytes_B),
               Inr (VInt 1)),
              (import_call sample_url ''mydb'' (VInt 7) ''secret'' (VInt 1),
               Inl (RpcFault ''import failed''))],
            remote := \<lparr>statements = [], staged = [(''camt.053_B.xml'', b64encode bytes_B)],
                        logins = 0\<rparr>\<rparr>)"
proof -
  let ?staged = "\<lparr>statements = [], staged = [(''camt.053_B.xml'', b64encode bytes_B)], logins = 0\<rparr>"
  have hs: "has_statement sample_fs ''stmts'' ''camt.053_B.xml'' ''STMT-001''"
    by code_simp
  have se: "sample_server importer uid_by_login (remote (start empty_odoo))
              (search_call sample_url ''mydb'' (VInt 7) ''secret'' ''STMT-001'') =
            (Inr (VList []), empty_odoo)" for importer
    by (simp add: sample_server_def search_call_def odoo_search_def start_def empty_odoo_def)
  have nt: "\<not> truthy (VList [])" by simp
  have rb: "read_bytes sample_fs (path_join ''stmts'' ''camt.053_B.xml'') = Inr bytes_B"
    by (simp add: sample_fs_def sample_files_def path_join_def startswith_def endswith_def)
  have cr: "sample_server importer uid_by_login empty_odoo
              (ExecuteKw (sample_url @ ''/xmlrpc/2/object'') ''mydb'' (VInt 7) ''secret''
                 ''account.statement.import'' ''create''
                 (VList [VDict [(''statement_filename'', VStr ''camt.053_B.xml''),
                                (''statement_file'', VStr (b64encode bytes_B))]])) =
            (Inr (VInt 1), ?staged)" for importer
    by (simp add: sample_server_def odoo_create_def empty_odoo_def)
  have im1: "sample_server (\<lambda>f. Some ''STMT-001'') uid_by_login ?staged
              (ExecuteKw (sample_url @ ''/xmlrpc/2/object'') ''mydb'' (VInt 7) ''secret''
                 ''account.statement.import'' ''import_file_button'' (VList [VList [VInt 1]])) =
            (Inr (VBool True),
             \<lparr>statements = [(1, ''STMT-001'')], staged = [(''camt.053_B.xml'', b64encode bytes_B)],
              logins = 0\<rparr>)"
    by (simp add: sample_server_def odoo_import_def)
  have im2: "sample_server (\<lambda>f. None) uid_by_login ?staged
              (ExecuteKw (sample_url @ ''/xmlrpc/2/object'') ''mydb'' (VInt 7) ''secret''
                 ''account.statement.import'' ''import_file_button'' (VList [VList [VInt 1]])) =
            (Inl (RpcFault ''import failed''), ?staged)"
    by (simp add: sample_server_def odoo_import_def)
  have bs: "before_search sample_fs False ''stmts'' ''camt.053_B.xml'' ''STMT-001'' (start empty_odoo) =
            start empty_odoo"
    by (simp add: before_search_def after_blank_check_def is_blank_camt053_def Let_def logmsg_def
        start_def sample_fs_def sample_parse_def sample_files_def path_join_def startswith_def
        endswith_def split: sum.splits)
  show ?thesis
    using upload_is_create_then_import
            [where srv = "sample_server (\<lambda>f. Some ''STMT-001'') uid_by_login" and dbg = False,
             OF hs se nt rb cr im1]
          upload_is_create_then_import
            [where srv = "sample_server (\<lambda>f. None) uid_by_login" and dbg = False,
             OF hs se nt rb cr im2]
    by (simp add: bs create_call_def import_call_def) (simp add: start_def logmsg_def)
qed

text \<open>
  C5, at the input where the code departs from it: an \<open>Id\<close> node holding three spaces.
  The text is not empty, so the guard lets it through; stripped, the identifier is the
  empty string, the file is not skipped, and the search, the create and the import
  trigger are all issued for it.
\<close>

theorem whitespace_identifier_is_not_skipped:
  "extract_stmt_id sample_fs ''ws.xml'' ''inbox/ws.xml'' (start empty_odoo) = Inr []
   \<and> map fst (trace (snd (process_body sample_fs (sample_server (\<lambda>f. None) uid_by_login)
                             ''https://odoo.example.com'' ''mydb'' (VInt 7) ''secret'' False
                             ''inbox'' ''ws.xml'' (start empty_odoo)))) =
       [search_call ''https://odoo.example.com'' ''mydb'' (VInt 7) ''secret'' [],
        create_call ''https://odoo.example.com'' ''mydb'' (VInt 7) ''secret'' ''ws.xml''
          (b64encode bytes_W),
        import_call ''https://odoo.example.com'' ''mydb'' (VInt 7) ''secret'' (VInt 1)]"
  by code_simp

section \<open>The batch of the import workflow\<close>

text \<open>
  C3, at an input where the code departs from it. The first file of the directory
  \<open>mixed\<close> is not well-formed and declares an encoding that does not exist, so
  \<^verbatim>\<open>ET.parse\<close> raises \<^verbatim>\<open>LookupError\<close>, not \<^verbatim>\<open>ParseError\<close>. The blankness
  check catches \<^verbatim>\<open>ParseError\<close> only and is called outside every \<^verbatim>\<open>try\<close> of the
  loop: the exception is the outcome of the whole run. Nothing is logged for the file, and
  the second file, a statement with one entry, is never attempted: no remote call follows
  the two logins.
\<close>

theorem undecodable_file_aborts_the_batch:
  "main sample_fs (sample_server accepting uid_by_login) mixed_args (start empty_odoo) =
     (Inl (LookupError ''unknown encoding: bogus''),
      \<lparr>log_level = INFO, out = [Print [S ''Connection successful: User ID '', V (VInt 2)]],
       trace = [(args_call sample_args, Inr (VInt 2)), (args_call sample_args, Inr (VInt 7))],
       remote = empty_odoo\<lparr>logins := 2\<rparr>\<rparr>)"
  by code_simp

text \<open>
  The other steps of the loop body do what this one misses. An exception escapes the body
  only from the blankness check, and only when it is not a \<^verbatim>\<open>ParseError\<close>: on an
  entry that is readable in the sense above, the body returns normally and every remote
  call that raised is matched by an ERROR line. A listing of readable entries is worked
  through to its end.
\<close>

lemma out_logmsg:
  "out (logmsg lvl m w) = out w @ (if levelno (log_level w) \<le> levelno lvl then [Log lvl m] else [])"
  by (simp add: logmsg_def)

lemma lef_refl: "logs_every_fault w w"
  by (simp add: logs_every_fault_def)

lemma lef_logmsg: "logs_every_fault w w' \<Longrightarrow> logs_every_fault w (logmsg lvl m w')"
  by (auto simp: logs_every_fault_def out_logmsg simp del: logmsg_ERROR)

lemma lef_trans:
  assumes "logs_every_fault w w'" and "logs_every_fault w' w''"
  shows "logs_every_fault w w''"
proof -
  from assms(1) obtain c1 l1 where 1: "trace w' = trace w @ c1" "out w' = out w @ l1"
    "length (filter raised c1) \<le> length (filter is_error_log l1)"
    unfolding logs_every_fault_def by blast
  from assms(2) obtain c2 l2 where 2: "trace w'' = trace w' @ c2" "out w'' = out w' @ l2"
    "length (filter raised c2) \<le> length (filter is_error_log l2)"
    unfolding logs_every_fault_def by blast
  have "trace w'' = trace w @ (c1 @ c2)" "out w'' = out w @ (l1 @ l2)"
    "length (filter raised (c1 @ c2)) \<le> length (filter is_error_log (l1 @ l2))"
    using 1 2 by simp_all
  then show ?thesis
    unfolding logs_every_fault_def by blast
qed

lemma rpc_returned:
  assumes "rpc srv c w = (Inr v, w')"
  shows "logs_every_fault w w'"
proof -
  from assms have "trace w' = trace w @ [(c, Inr v)]" "out w' = out w @ []"
    by (auto simp: rpc_world)
  moreover have "length (filter raised [(c, Inr v)]) \<le> length (filter is_error_log [])"
    by simp
  ultimately show ?thesis
    unfolding logs_every_fault_def by blast
qed

lemma rpc_raised:
  assumes "rpc srv c w = (Inl e, w')"
  shows "logs_every_fault w (logmsg ERROR m w')"
proof -
  from assms have "trace (logmsg ERROR m w') = trace w @ [(c, Inl e)]"
    "out (logmsg ERROR m w') = out w @ [Log ERROR m]"
    by (auto simp: rpc_world)
  moreover have "length (filter raised [(c, Inl e)]) \<le> length (filter is_error_log [Log ERROR m])"
    by simp
  ultimately show ?thesis
    unfolding logs_every_fault_def by blast
qed

lemma upload_stage_lef:
  "fst (upload_stage fs srv url dbn uid pw n p w) = Inr ()
   \<and> logs_every_fault w (snd (upload_stage fs srv url dbn uid pw n p w))"
proof (cases "read_bytes fs p")
  case (Inl e)
  then show ?thesis
    by (simp add: upload_stage_def lef_logmsg [OF lef_refl] del: logmsg_ERROR)
next
  case (Inr data)
  obtain r1 w1 where c: "rpc srv (create_call url dbn uid pw n (b64encode data)) w = (r1, w1)"
    by (cases "rpc srv (create_call url dbn uid pw n (b64encode data)) w")
  show ?thesis
  proof (cases r1)
    case (Inl e)
    with Inr c rpc_raised [of srv _ w e w1] show ?thesis
      by (simp add: upload_stage_def Let_def del: logmsg_ERROR)
  next
    case (Inr rec_id)
    note created = this
    obtain r2 w2 where i: "rpc srv (import_call url dbn uid pw rec_id) w1 = (r2, w2)"
      by (cases "rpc srv (import_call url dbn uid pw rec_id) w1")
    from c created have 1: "logs_every_fault w w1" by (simp add: rpc_returned)
    show ?thesis
    proof (cases r2)
      case (Inl e)
      with i have "logs_every_fault w1 (logmsg ERROR [S ''Error uploading file '', S n, S '' to Odoo: '', E e] w2)"
        by (simp add: rpc_raised del: logmsg_ERROR)
      with 1 have "logs_every_fault w (logmsg ERROR [S ''Error uploading file '', S n, S '' to Odoo: '', E e] w2)"
        by (rule lef_trans)
      with Inl \<open>read_bytes fs p = Inr data\<close> c created i show ?thesis
        by (simp add: upload_stage_def Let_def del: logmsg_ERROR)
    next
      case (Inr v)
      with i have "logs_every_fault w1 w2" by (simp add: rpc_returned)
      with 1 have "logs_every_fault w w2" by (rule lef_trans)
      with Inr \<open>read_bytes fs p = Inr data\<close> c created i show ?thesis
        by (simp add: upload_stage_def Let_def lef_logmsg del: logmsg_ERROR)
    qed
  qed
qed

lemma exists_stage_lef:
  "fst (exists_stage fs srv url dbn uid pw dbg n p sid w) = Inr ()
   \<and> logs_every_fault w (snd (exists_stage fs srv url dbn uid pw dbg n p sid w))"
proof -
  define w1 where "w1 = (if dbg
        then logmsg DEBUG [S ''Extracted statement ID: '', S sid, S '' from file: '', S n] w
        else w)"
  have 0: "logs_every_fault w w1"
    by (simp add: w1_def lef_refl lef_logmsg)
  obtain r w2 where c: "rpc srv (search_call url dbn uid pw sid) w1 = (r, w2)"
    by (cases "rpc srv (search_call url dbn uid pw sid) w1")
  have unfold: "exists_stage fs srv url dbn uid pw dbg n p sid w =
      (case r of
         Inl e \<Rightarrow> (Inr (), logmsg ERROR [S ''Error checking statement existence in Odoo for '', S sid,
                                          S '': '', E e] w2)
       | Inr existing_statement \<Rightarrow>
           if truthy existing_statement
           then (Inr (), logmsg INFO [S ''Statement with ID '', S sid,
                                      S '' already exists in Odoo. Skipping file: '', S n] w2)
           else upload_stage fs srv url dbn uid pw n p w2)"
    using c by (simp add: exists_stage_def Let_def w1_def)
  show ?thesis
  proof (cases r)
    case (Inl e)
    with c have "logs_every_fault w1 (logmsg ERROR [S ''Error checking statement existence in Odoo for '',
        S sid, S '': '', E e] w2)"
      by (simp add: rpc_raised del: logmsg_ERROR)
    with 0 have "logs_every_fault w (logmsg ERROR [S ''Error checking statement existence in Odoo for '',
        S sid, S '': '', E e] w2)"
      by (rule lef_trans)
    with Inl show ?thesis
      unfolding unfold by (simp del: logmsg_ERROR)
  next
    case (Inr ex)
    with c have "logs_every_fault w1 w2" by (simp add: rpc_returned)
    with 0 have 2: "logs_every_fault w w2" by (rule lef_trans)
    show ?thesis
    proof (cases "truthy ex")
      case True
      with Inr 2 show ?thesis
        unfolding unfold by (simp add: lef_logmsg)
    next
      case False
      from 2 upload_stage_lef [of fs srv url dbn uid pw n p w2]
      have "logs_every_fault w (snd (upload_stage fs srv url dbn uid pw n p w2))"
        using lef_trans by blast
      with Inr False upload_stage_lef [of fs srv url dbn uid pw n p w2] show ?thesis
        unfolding unfold by simp
    qed
  qed
qed

lemma is_blank_lef: "logs_every_fault w (snd (is_blank_camt053 fs p w))"
  by (auto simp: is_blank_camt053_def Let_def lef_logmsg lef_refl split: sum.splits
      simp del: logmsg_ERROR)

lemma is_blank_outcome:
  "fst (is_blank_camt053 fs p w) =
     (case parse_path fs p of
        Inl e \<Rightarrow> if is_ParseError e then Inr False else Inl e
      | Inr root \<Rightarrow> Inr (findall_desc ''Ntry'' root = []))"
  by (simp add: is_blank_camt053_def Let_def split: sum.splits)

lemma extract_lef:
  "extract_stmt_id fs n p w = Inl w' \<Longrightarrow> logs_every_fault w w'"
  by (auto simp: extract_stmt_id_def lef_logmsg lef_refl split: sum.splits option.splits if_splits
      simp del: logmsg_ERROR)

lemma process_body_lef:
  assumes "readable fs d n"
  shows "fst (process_body fs srv url dbn uid pw dbg d n w) = Inr ()
         \<and> logs_every_fault w (snd (process_body fs srv url dbn uid pw dbg d n w))"
proof (cases "endswith n ''.xml''")
  case False
  then show ?thesis
    by (simp add: process_body_def Let_def lef_refl lef_logmsg)
next
  case True
  define w1 where "w1 = (if dbg then logmsg DEBUG [S ''Inspecting file: '', S n] w else w)"
  have 0: "logs_every_fault w w1"
    by (simp add: w1_def lef_refl lef_logmsg)
  obtain res w2 where b: "is_blank_camt053 fs (path_join d n) w1 = (res, w2)"
    by (cases "is_blank_camt053 fs (path_join d n) w1")
  from is_blank_lef [of w1 fs "path_join d n"] b 0 have 2: "logs_every_fault w w2"
    using lef_trans by fastforce
  from assms True is_blank_outcome [of fs "path_join d n" w1] b
  obtain blank where r: "res = Inr blank"
    by (auto simp: readable_def split: sum.splits if_splits)
  have unfold: "process_body fs srv url dbn uid pw dbg d n w =
      (if blank then (Inr (), logmsg INFO [S ''Skipping blank file: '', S n] w2)
       else (case extract_stmt_id fs n (path_join d n) w2 of
               Inl w3 \<Rightarrow> (Inr (), w3)
             | Inr stmt_id \<Rightarrow>
                 exists_stage fs srv url dbn uid pw dbg n (path_join d n) stmt_id w2))"
    using True b r by (simp add: process_body_def Let_def w1_def)
  show ?thesis
  proof (cases blank)
    case True
    with 2 show ?thesis unfolding unfold by (simp add: lef_logmsg)
  next
    case False
    show ?thesis
    proof (cases "extract_stmt_id fs n (path_join d n) w2")
      case (Inl w3)
      from extract_lef [OF Inl] 2 have "logs_every_fault w w3" using lef_trans by blast
      with False Inl show ?thesis unfolding unfold by simp
    next
      case (Inr sid)
      from exists_stage_lef [of fs srv url dbn uid pw dbg n "path_join d n" sid w2] 2
      have "logs_every_fault w (snd (exists_stage fs srv url dbn uid pw dbg n (path_join d n) sid w2))"
        using lef_trans by blast
      with False Inr exists_stage_lef [of fs srv url dbn uid pw dbg n "path_join d n" sid w2]
      show ?thesis unfolding unfold by simp
    qed
  qed
qed

lemma process_body_outcome:
  "fst (process_body fs srv url dbn uid pw dbg d n w) =
     (if endswith n ''.xml''
      then (case parse_path fs (path_join d n) of
              Inl e \<Rightarrow> if is_ParseError e then Inr () else Inl e
            | Inr root \<Rightarrow> Inr ())
      else Inr ())"
proof (cases "readable fs d n")
  case True
  with process_body_lef [OF True, of srv url dbn uid pw dbg w] show ?thesis
    by (auto simp: readable_def split: sum.splits)
next
  case False
  then show ?thesis
    by (auto simp: readable_def process_body_def is_blank_camt053_def Let_def split: sum.splits)
qed

lemma import_loop_returns_when_readable:
  assumes "list_all (readable fs d) names"
  shows "fst (for_each (process_body fs srv url dbn uid pw dbg d) names w) = Inr ()
         \<and> logs_every_fault w (snd (for_each (process_body fs srv url dbn uid pw dbg d) names w))"
  using assms
proof (induction names arbitrary: w)
  case Nil
  then show ?case by (simp add: lef_refl)
next
  case (Cons n names)
  obtain res w' where b: "process_body fs srv url dbn uid pw dbg d n w = (res, w')"
    by (cases "process_body fs srv url dbn uid pw dbg d n w")
  from Cons.prems have "readable fs d n" by simp
  from process_body_lef [OF this, of srv url dbn uid pw dbg w] b
  have r: "res = Inr ()" and l: "logs_every_fault w w'" by simp_all
  from Cons.IH [of w'] Cons.prems
  have "fst (for_each (process_body fs srv url dbn uid pw dbg d) names w') = Inr ()"
    "logs_every_fault w' (snd (for_each (process_body fs srv url dbn uid pw dbg d) names w'))"
    by simp_all
  with b r l lef_trans show ?case
    by (simp, blast)
qed

lemma unreadable_entry_aborts:
  assumes "endswith n ''.xml''" and "parse_path fs (path_join d n) = Inl e" and "\<not> is_ParseError e"
  shows "for_each (process_body fs srv url dbn uid pw dbg d) (n # rest) w =
           (Inl e, logmsg DEBUG [S ''Checking file for blank status: '', S (path_join d n)]
                     (if dbg then logmsg DEBUG [S ''Inspecting file: '', S n] w else w))"
  using assms
  by (simp add: process_body_def is_blank_camt053_def Let_def)

section \<open>Deduplication\<close>

lemma is_create_for_simps [simp]:
  "\<not> is_create_for n (authenticate_call url dbn u pw)"
  "\<not> is_create_for n (search_call url dbn uid pw sid)"
  "\<not> is_create_for n (import_call url dbn uid pw i)"
  "is_create_for n (create_call url dbn uid pw m enc) = (m = n)"
  by (simp_all add: is_create_for_def authenticate_call_def search_call_def import_call_def
      create_call_def)















end
